theory Spec2Isabelle
  imports Main
begin

section \<open>Data model\<close>

text \<open>
  The reconciliation file of package \<^verbatim>\<open>clusterdeploy\<close> works on a managed cluster
  object, two process-wide caches and a number of external collaborators. Go strings and
  byte slices are \<^typ>\<open>string\<close>. A Go map that the file ranges over, compares or
  assigns into is an association list in some iteration order, wrapped in
  \<^typ>\<open>'a option\<close> because a nil map (\<open>None\<close>) differs from an empty one under
  \<^verbatim>\<open>reflect.DeepEqual\<close> and under assignment; the keys of a Go map are distinct. A slice
  that the file only ranges over and appends to is a list (nil is the empty list); a
  slice it compares with \<^verbatim>\<open>reflect.DeepEqual\<close> keeps the nil case. The mutexes are left
  out (one reconcile pass at a time), and so are all \<^verbatim>\<open>logrus\<close> calls together with the
  arguments evaluated only for them.
\<close>

type_synonym bytes = string

type_synonym ('k, 'v) gomap = "('k \<times> 'v) list option"

definition entries :: "('k, 'v) gomap \<Rightarrow> ('k \<times> 'v) list" where
  "entries m = (case m of None \<Rightarrow> [] | Some kvs \<Rightarrow> kvs)"

definition keys :: "('k, 'v) gomap \<Rightarrow> 'k set" where
  "keys m = fst ` set (entries m)"

definition wellFormed :: "('k, 'v) gomap \<Rightarrow> bool" where
  "wellFormed m = distinct (map fst (entries m))"

text \<open>Reading \<^verbatim>\<open>m[k]\<close> gives the zero value for a missing key and for a nil map.\<close>

definition indexBool :: "(string, bool) gomap \<Rightarrow> string \<Rightarrow> bool" where
  "indexBool m k = (case map_of (entries m) k of None \<Rightarrow> False | Some v \<Rightarrow> v)"

definition indexString :: "(string, string) gomap \<Rightarrow> string \<Rightarrow> string" where
  "indexString m k = (case map_of (entries m) k of None \<Rightarrow> [] | Some v \<Rightarrow> v)"

text \<open>The assignment \<^verbatim>\<open>m[k] = v\<close> on the entries of a non-nil map.\<close>

fun assign :: "('k \<times> 'v) list \<Rightarrow> 'k \<Rightarrow> 'v \<Rightarrow> ('k \<times> 'v) list" where
  "assign [] k v = [(k, v)]"
| "assign ((k', v') # kvs) k v = (if k' = k then (k, v) # kvs else (k', v') # assign kvs k v)"

text \<open>
  Errors are values. \<^verbatim>\<open>errors.New\<close> and \<^verbatim>\<open>fmt.Errorf\<close> give \<open>ErrorNew\<close>; \<open>NotFound\<close> is
  an API error that \<^verbatim>\<open>apierrors.IsNotFound\<close> recognises; \<^verbatim>\<open>types.NewErrors\<close> of two
  non-nil errors gives \<open>MultiErrors\<close>; \<^verbatim>\<open>errors.WithMessage\<close> gives \<open>WithMessage\<close>.
\<close>

datatype error =
    ErrorNew string
  | NotFound string
  | MultiErrors "error list"
  | WithMessage error string

definition IsNotFound :: "error \<Rightarrow> bool" where
  "IsNotFound e = (case e of NotFound _ \<Rightarrow> True | _ \<Rightarrow> False)"

fun joinComma :: "string list \<Rightarrow> string" where
  "joinComma [] = []"
| "joinComma [x] = x"
| "joinComma (x # y # ys) = x @ '', '' @ joinComma (y # ys)"

fun errorString :: "error \<Rightarrow> string" where
  "errorString (ErrorNew m) = m"
| "errorString (NotFound m) = m"
| "errorString (MultiErrors es) = joinComma (map errorString es)"
| "errorString (WithMessage e m) = m @ '': '' @ errorString e"

text \<open>
  Modelled from the spec: the type declarations of the cluster object are not in the
  file. The records hold the fields the file reads or writes: "identity (name), desired
  spec (driver, auth-endpoint toggle, image overrides, env var overrides, network plugin,
  force-deploy flag), observed status (applied images, applied features, applied taints,
  applied env vars, condition set), annotations (force-deploy marker)"; a taint is a
  "(key, value, effect) triple; equality is structural".
\<close>

record PrivateRegistry =
  URL :: string
  User :: string
  Password :: string
  IsDefault :: bool

record Taint =
  Key :: string
  Value :: string
  Effect :: string

record EnvVar =
  envName :: string
  envValue :: string

record container =
  containerName :: string
  containerImage :: string

record Node =
  NodeName :: string
  NodeLabels :: "(string, string) gomap"
  Taints :: "Taint list"

record rkeConfig =
  AuthenticationStrategy :: string
  PrivateRegistries :: "PrivateRegistry list"
  NetworkPlugin :: string

record clusterSpec =
  Internal :: bool
  LocalClusterAuthEndpointEnabled :: bool
  RancherKubernetesEngineConfig :: "rkeConfig option"
  AgentImageOverride :: string
  DesiredAgentImage :: string
  DesiredAuthImage :: string
  AgentEnvVars :: "EnvVar list option"
  EnableNetworkPolicy :: "bool option"
  WindowsPreferedCluster :: bool

record condition =
  condType :: string
  condStatus :: string
  condMessage :: string

record clusterStatus =
  Driver :: string
  AgentImage :: string
  AuthImage :: string
  AgentFeatures :: "(string, bool) gomap"
  AppliedSpec :: clusterSpec
  AppliedAgentEnvVars :: "EnvVar list option"
  Conditions :: "condition list"

record cluster =
  Name :: string
  DeletionTimestamp :: "nat option"
  Annotations :: "(string, string) gomap"
  Spec :: clusterSpec
  Status :: clusterStatus

definition AgentForceDeployAnn :: string where
  "AgentForceDeployAnn = ''io.cattle.agent.force.deploy''"

text \<open>
  Modelled from the spec: the driver and condition constants of the API package are not in
  the file. The conditions are "one of {Provisioned, SystemAccountCreated, AgentDeployed}";
  the engine driver is "the driver that programs nodes individually", and all the file
  does with its name is compare it.
\<close>

definition ClusterDriverRKE :: string where
  "ClusterDriverRKE = ''rancherKubernetesEngine''"

definition ClusterConditionProvisioned :: string where
  "ClusterConditionProvisioned = ''Provisioned''"

definition ClusterConditionSystemAccountCreated :: string where
  "ClusterConditionSystemAccountCreated = ''SystemAccountCreated''"

definition ClusterConditionAgentDeployed :: string where
  "ClusterConditionAgentDeployed = ''AgentDeployed''"

section \<open>External collaborators and process state\<close>

text \<open>
  Every call that leaves the file (the remote cluster API, the node lister, the credential
  provider, the settings, the manifest renderer, \<^verbatim>\<open>kubectl\<close>, the sleep, the write-back)
  is recorded as an event in a trace. What a call returns is given by an oracle that sees
  the trace so far, so the same call may answer differently on a later attempt.
\<close>

type_synonym kubeConfig = string

datatype event =
    EvRemoveSystemAccount string
  | EvNodeList string
  | EvCreateSystemAccount string
  | EvGetSystemUser string
  | EvEnsureToken string string string string
  | EvKubeConfig string string
  | EvGetOrCreateSystemClusterToken string
  | EvServerURLGet
  | EvEnqueueAfter string string nat
  | EvSystemTemplate string string string
  | EvResolveAgentImage string
  | EvResolveAuthImage string
  | EvUserContext string
  | EvGetDeployment string
  | EvGetDaemonSet string
  | EvKubectlApply bytes kubeConfig
  | EvKubectlDelete bytes kubeConfig
  | EvSleep nat
  | EvUpdate cluster

record ext =
  RemoveSystemAccount :: "event list \<Rightarrow> string \<Rightarrow> error option"
  NodeList :: "event list \<Rightarrow> string \<Rightarrow> error + Node list"
  CreateSystemAccount :: "event list \<Rightarrow> cluster \<Rightarrow> error option"
  GetSystemUser :: "event list \<Rightarrow> string \<Rightarrow> error + string"
  EnsureToken :: "event list \<Rightarrow> string \<Rightarrow> string \<Rightarrow> string \<Rightarrow> string \<Rightarrow> error + string"
  KubeConfig :: "event list \<Rightarrow> string \<Rightarrow> string \<Rightarrow> kubeConfig"
  GetOrCreateSystemClusterToken :: "event list \<Rightarrow> string \<Rightarrow> error + string"
  ServerURLGet :: "event list \<Rightarrow> string"
  SystemTemplate :: "event list \<Rightarrow> string \<Rightarrow> string \<Rightarrow> string \<Rightarrow> string \<Rightarrow> string \<Rightarrow> bool
     \<Rightarrow> cluster \<Rightarrow> (string, bool) gomap \<Rightarrow> Taint list \<Rightarrow> bytes \<times> error option"
  ResolveAgentImage :: "event list \<Rightarrow> cluster \<Rightarrow> string"
  ResolveAuthImage :: "event list \<Rightarrow> cluster \<Rightarrow> string"
  UserContext :: "event list \<Rightarrow> string \<Rightarrow> error option"
  GetDeployment :: "event list \<Rightarrow> string \<Rightarrow> error + container list"
  GetDaemonSet :: "event list \<Rightarrow> string \<Rightarrow> error + container list"
  KubectlApply :: "event list \<Rightarrow> bytes \<Rightarrow> kubeConfig \<Rightarrow> bytes \<times> error option"
  KubectlDelete :: "event list \<Rightarrow> bytes \<Rightarrow> kubeConfig \<Rightarrow> bytes \<times> error option"
  Update :: "event list \<Rightarrow> cluster \<Rightarrow> error option"
  AuthDaemonSet :: bytes
  NodeAgentDaemonSet :: bytes

text \<open>
  The process state: the trace, and the package variables \<^verbatim>\<open>agentImages[nodeImage]\<close>,
  \<^verbatim>\<open>agentImages[clusterImage]\<close> and \<^verbatim>\<open>controlPlaneTaints\<close>, maps keyed by cluster name that
  are only read, assigned and deleted at a key.
\<close>

record state =
  trace :: "event list"
  agentImagesNode :: "string \<rightharpoonup> string"
  agentImagesCluster :: "string \<rightharpoonup> string"
  controlPlaneTaints :: "string \<rightharpoonup> Taint list"

definition logEvent :: "event \<Rightarrow> state \<Rightarrow> state" where
  "logEvent e s = s\<lparr>trace := trace s @ [e]\<rparr>"

text \<open>A function returns its error, or the goroutine panics.\<close>

datatype result = Return "error option" | Panic

section \<open>Helpers that are not in the file\<close>

text \<open>
  Modelled from the spec: the condition library is not in the file. A condition is "a
  named boolean milestone in a cluster's reconciliation progress", "each with a
  boolean-true terminal state and a human-readable message". Its wrapper runs the action
  and, on an error, will "mark the condition as not-yet-true"; the retry-until-true
  wrapper invokes the action "only ... while condition is false; once true it is never
  re-invoked". The step recorded by \<open>Message\<close> is the condition's diagnostic message.
\<close>

definition getStatus :: "string \<Rightarrow> cluster \<Rightarrow> string" where
  "getStatus t obj =
     (case find (\<lambda>c. condType c = t) (Conditions (Status obj)) of
        None \<Rightarrow> [] | Some c \<Rightarrow> condStatus c)"

definition IsTrue :: "string \<Rightarrow> cluster \<Rightarrow> bool" where
  "IsTrue t obj = (getStatus t obj = ''True'')"

fun updateCondition :: "string \<Rightarrow> (condition \<Rightarrow> condition) \<Rightarrow> condition list \<Rightarrow> condition list" where
  "updateCondition t f [] = [f \<lparr>condType = t, condStatus = [], condMessage = []\<rparr>]"
| "updateCondition t f (c # cs) =
     (if condType c = t then f c # cs else c # updateCondition t f cs)"

definition setCondition :: "string \<Rightarrow> (condition \<Rightarrow> condition) \<Rightarrow> cluster \<Rightarrow> cluster" where
  "setCondition t f obj =
     obj\<lparr>Status := (Status obj)\<lparr>Conditions := updateCondition t f (Conditions (Status obj))\<rparr>\<rparr>"

definition Message :: "string \<Rightarrow> cluster \<Rightarrow> string \<Rightarrow> cluster" where
  "Message t obj msg = setCondition t (\<lambda>c. c\<lparr>condMessage := msg\<rparr>) obj"

definition SetStatus :: "string \<Rightarrow> cluster \<Rightarrow> string \<Rightarrow> cluster" where
  "SetStatus t obj v = setCondition t (\<lambda>c. c\<lparr>condStatus := v\<rparr>) obj"

definition Do ::
  "string \<Rightarrow> (state \<Rightarrow> (cluster \<times> error option) \<times> state) \<Rightarrow> state
     \<Rightarrow> (cluster \<times> error option) \<times> state" where
  "Do t f s =
     (let ((obj, err), s') = f s in
      case err of
        Some e \<Rightarrow> ((Message t (SetStatus t obj ''False'') (errorString e), Some e), s')
      | None \<Rightarrow> ((SetStatus t obj ''True'', None), s'))"

definition DoUntilTrue ::
  "string \<Rightarrow> cluster \<Rightarrow> (state \<Rightarrow> (cluster \<times> error option) \<times> state) \<Rightarrow> state
     \<Rightarrow> (cluster \<times> error option) \<times> state" where
  "DoUntilTrue t obj f s = (if IsTrue t obj then ((obj, None), s) else Do t f s)"

text \<open>
  Modelled from the spec: \<^verbatim>\<open>util.GetPrivateRepo\<close> is not in the file. It gives the
  "desired primary registry", the first private registry of the desired spec, or nil.
\<close>

definition GetPrivateRepo :: "cluster \<Rightarrow> PrivateRegistry option" where
  "GetPrivateRepo obj =
     (case RancherKubernetesEngineConfig (Spec obj) of
        None \<Rightarrow> None
      | Some config \<Rightarrow>
          (case PrivateRegistries config of [] \<Rightarrow> None | r # _ \<Rightarrow> Some r))"

text \<open>
  Modelled from the spec: \<^verbatim>\<open>taints.GetToDiffTaints\<close> is not in the file. It computes the
  "added/removed sets between the cached observed taint list and the desired taint list
  (structural set difference)".
\<close>

definition GetToDiffTaints :: "Taint list \<Rightarrow> Taint list \<Rightarrow> Taint list \<times> Taint list" where
  "GetToDiffTaints current desired =
     (filter (\<lambda>t. t \<notin> set current) desired, filter (\<lambda>t. t \<notin> set desired) current)"

text \<open>\<^verbatim>\<open>strings.HasPrefix\<close>, \<^verbatim>\<open>strings.Contains\<close> and \<^verbatim>\<open>strings.Replace\<close> of the standard library.\<close>

definition HasPrefix :: "string \<Rightarrow> string \<Rightarrow> bool" where
  "HasPrefix s p = (take (length p) s = p)"

fun splitFirst :: "string \<Rightarrow> string \<Rightarrow> (string \<times> string) option" where
  "splitFirst [] sep = (if sep = [] then Some ([], []) else None)"
| "splitFirst (c # cs) sep =
     (if HasPrefix (c # cs) sep then Some ([], drop (length sep) (c # cs))
      else (case splitFirst cs sep of
              None \<Rightarrow> None
            | Some (before, after) \<Rightarrow> Some (c # before, after)))"

definition Contains :: "string \<Rightarrow> string \<Rightarrow> bool" where
  "Contains s sub = (splitFirst s sub \<noteq> None)"

definition replaceFirst :: "string \<Rightarrow> string \<Rightarrow> string \<Rightarrow> string" where
  "replaceFirst s old new =
     (case splitFirst s old of None \<Rightarrow> s | Some (before, after) \<Rightarrow> before @ new @ after)"

section \<open>The caches\<close>

definition getAgentImages :: "string \<Rightarrow> state \<Rightarrow> string \<times> string" where
  "getAgentImages name s =
     (case agentImagesNode s name of None \<Rightarrow> [] | Some v \<Rightarrow> v,
      case agentImagesCluster s name of None \<Rightarrow> [] | Some v \<Rightarrow> v)"

definition agentImagesCached :: "string \<Rightarrow> state \<Rightarrow> bool" where
  "agentImagesCached name s = (let (na, ca) = getAgentImages name s in na \<noteq> [] \<and> ca \<noteq> [])"

definition controlPlaneTaintsCached :: "string \<Rightarrow> state \<Rightarrow> bool" where
  "controlPlaneTaintsCached name s =
     (case controlPlaneTaints s name of Some _ \<Rightarrow> True | None \<Rightarrow> False)"

definition getCachedTaints :: "string \<Rightarrow> state \<Rightarrow> Taint list" where
  "getCachedTaints name s =
     (case controlPlaneTaints s name of Some ts \<Rightarrow> ts | None \<Rightarrow> [])"

definition clearAgentImages :: "string \<Rightarrow> state \<Rightarrow> state" where
  "clearAgentImages name s =
     s\<lparr>agentImagesNode := (agentImagesNode s)(name := None),
       agentImagesCluster := (agentImagesCluster s)(name := None)\<rparr>"

definition clearControlPlaneTaints :: "string \<Rightarrow> state \<Rightarrow> state" where
  "clearControlPlaneTaints name s =
     s\<lparr>controlPlaneTaints := (controlPlaneTaints s)(name := None)\<rparr>"

section \<open>The redeploy decision\<close>

text \<open>
  One \<^verbatim>\<open>for k, v := range m\<close> loop of \<^verbatim>\<open>agentFeaturesChanged\<close>: it returns at the first
  entry whose value differs from the other map's value at the same key.
\<close>

fun rangeDiffers :: "(string \<times> bool) list \<Rightarrow> (string, bool) gomap \<Rightarrow> bool" where
  "rangeDiffers [] other = False"
| "rangeDiffers ((k, v) # kvs) other =
     (if indexBool other k \<noteq> v then True else rangeDiffers kvs other)"

definition agentFeaturesChanged :: "(string, bool) gomap \<Rightarrow> (string, bool) gomap \<Rightarrow> bool" where
  "agentFeaturesChanged desired actual =
     (if rangeDiffers (entries desired) actual then True
      else if rangeDiffers (entries actual) desired then True
      else False)"

text \<open>
  The local variables of \<^verbatim>\<open>redeployAgent\<close>. In \<open>repoChange\<close> the two pointers are
  options; \<open>appliedRepo\<close> is the address of a slice element and
  \<^verbatim>\<open>reflect.DeepEqual\<close> on two non-nil pointers compares what they point to.
\<close>

definition forceDeploy :: "cluster \<Rightarrow> bool" where
  "forceDeploy obj = (indexString (Annotations obj) AgentForceDeployAnn = ''true'')"

definition imageChange :: "cluster \<Rightarrow> string \<Rightarrow> string \<Rightarrow> bool" where
  "imageChange obj desiredAgent desiredAuth =
     (AgentImage (Status obj) \<noteq> desiredAgent \<or> AuthImage (Status obj) \<noteq> desiredAuth)"

definition repoChange :: "cluster \<Rightarrow> bool" where
  "repoChange obj =
     (case RancherKubernetesEngineConfig (Spec obj) of
        None \<Rightarrow> False
      | Some _ \<Rightarrow>
          (case RancherKubernetesEngineConfig (AppliedSpec (Status obj)) of
             None \<Rightarrow> False
           | Some applied \<Rightarrow>
               (case PrivateRegistries applied of
                  [] \<Rightarrow> False
                | first # _ \<Rightarrow>
                    (let desiredRepo = GetPrivateRepo obj;
                         appliedRepo = Some first
                     in (desiredRepo \<noteq> None \<and> appliedRepo \<noteq> None \<and> desiredRepo \<noteq> appliedRepo)
                        \<or> ((desiredRepo = None \<and> appliedRepo \<noteq> None)
                            \<or> (desiredRepo \<noteq> None \<and> appliedRepo = None))))))"

definition imageMismatch :: "cluster \<Rightarrow> state \<Rightarrow> bool" where
  "imageMismatch obj s =
     (let (na, ca) = getAgentImages (Name obj) s in
      (AgentImage (Status obj) \<noteq> na \<and> Driver (Status obj) = ClusterDriverRKE)
      \<or> AgentImage (Status obj) \<noteq> ca)"

definition taintMismatch :: "cluster \<Rightarrow> Taint list \<Rightarrow> state \<Rightarrow> bool" where
  "taintMismatch obj desiredTaints s =
     (let currentTaints = getCachedTaints (Name obj) s;
          (toAdd, toDelete) = GetToDiffTaints currentTaints desiredTaints
      in length toAdd > 0 \<or> length toDelete > 0)"

definition redeployAgent ::
  "cluster \<Rightarrow> string \<Rightarrow> string \<Rightarrow> (string, bool) gomap \<Rightarrow> Taint list \<Rightarrow> state \<Rightarrow> bool \<times> state" where
  "redeployAgent obj desiredAgent desiredAuth desiredFeatures desiredTaints s =
     (if \<not> IsTrue ClusterConditionAgentDeployed obj then (True, s)
      else if forceDeploy obj \<or> imageChange obj desiredAgent desiredAuth \<or> repoChange obj
              \<or> agentFeaturesChanged desiredFeatures (AgentFeatures (Status obj))
      then (True, s)
      else if imageMismatch obj s then (True, clearAgentImages (Name obj) s)
      else if taintMismatch obj desiredTaints s then (True, clearControlPlaneTaints (Name obj) s)
      else if AgentEnvVars (Spec obj) \<noteq> AppliedAgentEnvVars (Status obj) then (True, s)
      else (False, s))"

section \<open>Taint collection and cache population\<close>

definition controlPlaneLabels :: "(string \<times> string) list" where
  "controlPlaneLabels =
     [(''node-role.kubernetes.io/master'', ''true''),
      (''node-role.kubernetes.io/controlplane'', ''true''),
      (''node-role.kubernetes.io/control-plane'', ''true'')]"

fun controlPlaneLabelFound :: "(string \<times> string) list \<Rightarrow> (string, string) gomap \<Rightarrow> bool" where
  "controlPlaneLabelFound [] nodeLabels = False"
| "controlPlaneLabelFound ((controlPlaneLabelKey, controlPlaneLabelValue) # rest) nodeLabels =
     (case map_of (entries nodeLabels) controlPlaneLabelKey of
        Some labelValue \<Rightarrow>
          (if labelValue = controlPlaneLabelValue then True
           else controlPlaneLabelFound rest nodeLabels)
      | None \<Rightarrow> controlPlaneLabelFound rest nodeLabels)"

fun appendTaints :: "Taint list \<Rightarrow> Taint list \<Rightarrow> Taint list" where
  "appendTaints [] allTaints = allTaints"
| "appendTaints (taintStr # toAdd) allTaints =
     (if \<not> HasPrefix (Key taintStr) ''node.kubernetes.io''
      then appendTaints toAdd (allTaints @ [taintStr])
      else appendTaints toAdd allTaints)"

fun collectTaints :: "Node list \<Rightarrow> Taint list \<Rightarrow> Taint list" where
  "collectTaints [] allTaints = allTaints"
| "collectTaints (node # nodes) allTaints =
     (if controlPlaneLabelFound controlPlaneLabels (NodeLabels node)
      then (let (toAdd, toDelete) = GetToDiffTaints allTaints (Taints node)
            in collectTaints nodes (appendTaints toAdd allTaints))
      else collectTaints nodes allTaints)"

definition getControlPlaneTaints :: "ext \<Rightarrow> string \<Rightarrow> state \<Rightarrow> (error + Taint list) \<times> state" where
  "getControlPlaneTaints x name s =
     (let listed = NodeList x (trace s) name;
          s1 = logEvent (EvNodeList name) s
      in case listed of
           Inl err \<Rightarrow> (Inl err, s1)
         | Inr nodes \<Rightarrow> (Inr (collectTaints nodes []), s1))"

definition cacheControlPlaneTaints :: "ext \<Rightarrow> string \<Rightarrow> state \<Rightarrow> error option \<times> state" where
  "cacheControlPlaneTaints x name s =
     (case getControlPlaneTaints x name s of
        (Inl err, s1) \<Rightarrow> (Some err, s1)
      | (Inr taints, s1) \<Rightarrow>
          (None, s1\<lparr>controlPlaneTaints := (controlPlaneTaints s1)(name \<mapsto> taints)\<rparr>))"

fun imageOfContainer :: "string \<Rightarrow> container list \<Rightarrow> string" where
  "imageOfContainer n [] = []"
| "imageOfContainer n (c # cs) =
     (if containerName c = n then containerImage c else imageOfContainer n cs)"

definition getClusterAgentImage :: "ext \<Rightarrow> string \<Rightarrow> state \<Rightarrow> (error + string) \<times> state" where
  "getClusterAgentImage x name s =
     (let uc = UserContext x (trace s) name;
          s1 = logEvent (EvUserContext name) s
      in case uc of
           Some err \<Rightarrow> (Inl err, s1)
         | None \<Rightarrow>
             (let d = GetDeployment x (trace s1) name;
                  s2 = logEvent (EvGetDeployment name) s1
              in case d of
                   Inl err \<Rightarrow> (if \<not> IsNotFound err then (Inl err, s2) else (Inr [], s2))
                 | Inr containers \<Rightarrow> (Inr (imageOfContainer ''cluster-register'' containers), s2)))"

definition getNodeAgentImage :: "ext \<Rightarrow> string \<Rightarrow> state \<Rightarrow> (error + string) \<times> state" where
  "getNodeAgentImage x name s =
     (let uc = UserContext x (trace s) name;
          s1 = logEvent (EvUserContext name) s
      in case uc of
           Some err \<Rightarrow> (Inl err, s1)
         | None \<Rightarrow>
             (let ds = GetDaemonSet x (trace s1) name;
                  s2 = logEvent (EvGetDaemonSet name) s1
              in case ds of
                   Inl err \<Rightarrow> (if \<not> IsNotFound err then (Inl err, s2) else (Inr [], s2))
                 | Inr containers \<Rightarrow> (Inr (imageOfContainer ''agent'' containers), s2)))"

definition cacheAgentImages :: "ext \<Rightarrow> string \<Rightarrow> state \<Rightarrow> error option \<times> state" where
  "cacheAgentImages x name s =
     (case getNodeAgentImage x name s of
        (Inl err, s1) \<Rightarrow> (Some err, s1)
      | (Inr na, s1) \<Rightarrow>
          (case getClusterAgentImage x name s1 of
             (Inl err, s2) \<Rightarrow> (Some err, s2)
           | (Inr ca, s2) \<Rightarrow>
               (None, s2\<lparr>agentImagesNode := (agentImagesNode s2)(name \<mapsto> na),
                         agentImagesCluster := (agentImagesCluster s2)(name \<mapsto> ca)\<rparr>)))"

section \<open>Credentials, manifest and output formatting\<close>

definition getKubeConfig :: "ext \<Rightarrow> cluster \<Rightarrow> state \<Rightarrow> (error + kubeConfig) \<times> state" where
  "getKubeConfig x obj s =
     (let u = GetSystemUser x (trace s) (Name obj);
          s1 = logEvent (EvGetSystemUser (Name obj)) s
      in case u of
           Inl err \<Rightarrow> (Inl err, s1)
         | Inr userName \<Rightarrow>
             (let tok = EnsureToken x (trace s1) (''agent-'' @ userName)
                          ''token for agent deployment'' ''agent'' userName;
                  s2 = logEvent (EvEnsureToken (''agent-'' @ userName)
                          ''token for agent deployment'' ''agent'' userName) s1
              in case tok of
                   Inl err \<Rightarrow> (Inl err, s2)
                 | Inr token \<Rightarrow>
                     (Inr (KubeConfig x (trace s2) (Name obj) token),
                      logEvent (EvKubeConfig (Name obj) token) s2)))"

definition getYAML ::
  "ext \<Rightarrow> cluster \<Rightarrow> string \<Rightarrow> string \<Rightarrow> (string, bool) gomap \<Rightarrow> Taint list \<Rightarrow> state
     \<Rightarrow> (bytes \<times> error option) \<times> state" where
  "getYAML x obj agentImage authImage features taints s =
     (let tok = GetOrCreateSystemClusterToken x (trace s) (Name obj);
          s1 = logEvent (EvGetOrCreateSystemClusterToken (Name obj)) s
      in case tok of
           Inl err \<Rightarrow> (([], Some err), s1)
         | Inr token \<Rightarrow>
             (let url = ServerURLGet x (trace s1);
                  s2 = logEvent EvServerURLGet s1
              in if url = []
                 then (([], Some (ErrorNew ''waiting for server-url setting to be set'')),
                       logEvent (EvEnqueueAfter [] (Name obj) 1) s2)
                 else (SystemTemplate x (trace s2) agentImage authImage (Name obj) token url
                         (WindowsPreferedCluster (Spec obj)) obj features taints,
                       logEvent (EvSystemTemplate agentImage authImage (Name obj)) s2)))"

text \<open>
  The regular expression \<^verbatim>\<open>^.*?\"token\":\"(.*?)\"\<close> is applied after the newlines are
  gone. Both repetitions are lazy, so it matches at the first \<^verbatim>\<open>"token":"\<close> and captures
  up to the next double quote; it matches nothing when either is missing.
\<close>

definition formatKubectlApplyOutput :: "string \<Rightarrow> string" where
  \<open>formatKubectlApplyOutput l =
     (let l1 = map (\<lambda>c. if c = CHR 0x0A then CHR '' '' else c) l in
      case splitFirst l1 ''"token":"'' of
        None \<Rightarrow> l1
      | Some (before, rest) \<Rightarrow>
          (case splitFirst rest ''"'' of
             None \<Rightarrow> l1
           | Some (token, after) \<Rightarrow> replaceFirst l1 token ''REDACTED''))\<close>

section \<open>Applying the manifest\<close>

text \<open>
  The loop \<^verbatim>\<open>for i := 0; i < 5; i++\<close> of \<^verbatim>\<open>deployAgent\<close>: push, leave the loop on success,
  otherwise sleep five seconds. It carries \<open>output\<close> and \<open>err\<close>.
\<close>

function applyLoop ::
  "ext \<Rightarrow> bytes \<Rightarrow> kubeConfig \<Rightarrow> nat \<Rightarrow> bytes \<times> error option \<Rightarrow> state
     \<Rightarrow> (bytes \<times> error option) \<times> state" where
  "applyLoop x yaml kubeConfig i (output, err) s =
     (if i < 5 then
        (let (output1, err1) = KubectlApply x (trace s) yaml kubeConfig;
             s1 = logEvent (EvKubectlApply yaml kubeConfig) s
         in if err1 = None then ((output1, err1), s1)
            else applyLoop x yaml kubeConfig (i + 1) (output1, err1) (logEvent (EvSleep 5) s1))
      else ((output, err), s))"
  by pat_completeness auto
termination
  by (relation "measure (\<lambda>(x, yaml, kubeConfig, i, r, s). 5 - i)") auto

definition kubectlDeleteFailed :: "error \<Rightarrow> bytes \<Rightarrow> error" where
  "kubectlDeleteFailed err output =
     WithMessage (MultiErrors [err, ErrorNew output]) ''kubectl delete failed''"

definition applyFailed :: "error \<Rightarrow> bytes \<Rightarrow> error" where
  "applyFailed err output =
     WithMessage (MultiErrors [err, ErrorNew (formatKubectlApplyOutput output)])
       ''Error while applying agent YAML, it will be retried automatically''"

definition authNotFound :: string where
  \<open>authNotFound = ''daemonsets.apps "kube-api-auth" not found''\<close>

definition nodeAgentNotFound :: string where
  \<open>nodeAgentNotFound = ''daemonsets.apps "cattle-node-agent" not found''\<close>

definition authDeleteDue :: "cluster \<Rightarrow> bool" where
  "authDeleteDue obj =
     (\<not> LocalClusterAuthEndpointEnabled (Spec obj)
      \<and> LocalClusterAuthEndpointEnabled (AppliedSpec (Status obj))
      \<and> AuthImage (Status obj) \<noteq> [])"

text \<open>
  The function literal that \<^verbatim>\<open>deployAgent\<close> passes to \<^verbatim>\<open>ClusterConditionAgentDeployed.Do\<close>
  is \<open>applyAgent\<close>: render the manifest, run the loop, return the composite error when
  the loop ends with one. Its remainder, from the point where the apply has succeeded (so
  \<open>err\<close> is nil and \<open>output\<close> is the output of the push), is \<open>removeCompanions\<close>; the
  last stage of that, from the driver test on, is \<open>removeNodeAgent\<close>. Both return
  the cluster with the condition message they have recorded so far.
\<close>

definition removeNodeAgent :: "ext \<Rightarrow> cluster \<Rightarrow> kubeConfig \<Rightarrow> bytes \<Rightarrow> state
     \<Rightarrow> (cluster \<times> error option) \<times> state" where
  "removeNodeAgent x obj kubeConfig output s =
     (if Driver (Status obj) \<noteq> ClusterDriverRKE then
        (let (output1, err1) = KubectlDelete x (trace s) (NodeAgentDaemonSet x) kubeConfig;
             s1 = logEvent (EvKubectlDelete (NodeAgentDaemonSet x) kubeConfig) s
         in case err1 of
              Some e \<Rightarrow>
                (if \<not> Contains output1 nodeAgentNotFound
                 then ((obj, Some (kubectlDeleteFailed e output1)), s1)
                 else ((Message ClusterConditionAgentDeployed obj output1, None), s1))
            | None \<Rightarrow> ((Message ClusterConditionAgentDeployed obj output1, None), s1))
      else ((Message ClusterConditionAgentDeployed obj output, None), s))"

definition removeCompanions :: "ext \<Rightarrow> cluster \<Rightarrow> kubeConfig \<Rightarrow> bytes \<Rightarrow> state
     \<Rightarrow> (cluster \<times> error option) \<times> state" where
  "removeCompanions x obj0 kubeConfig output s =
     (let obj = Message ClusterConditionAgentDeployed obj0 output;
          ((output1, err1), s1) =
            (if authDeleteDue obj
             then (KubectlDelete x (trace s) (AuthDaemonSet x) kubeConfig,
                   logEvent (EvKubectlDelete (AuthDaemonSet x) kubeConfig) s)
             else ((output, None), s))
      in case err1 of
           Some e \<Rightarrow>
             (if \<not> Contains output1 authNotFound
              then ((obj, Some (kubectlDeleteFailed e output1)), s1)
              else removeNodeAgent x obj kubeConfig output1 s1)
         | None \<Rightarrow> removeNodeAgent x obj kubeConfig output1 s1)"

definition applyAgent ::
  "ext \<Rightarrow> cluster \<Rightarrow> string \<Rightarrow> string \<Rightarrow> (string, bool) gomap \<Rightarrow> Taint list \<Rightarrow> kubeConfig
     \<Rightarrow> state \<Rightarrow> (cluster \<times> error option) \<times> state" where
  "applyAgent x obj desiredAgent desiredAuth desiredFeatures desiredTaints kubeConfig s =
     (let ((yaml, err), s1) = getYAML x obj desiredAgent desiredAuth desiredFeatures desiredTaints s
      in case err of
           Some e \<Rightarrow> ((obj, Some e), s1)
         | None \<Rightarrow>
             (let ((output, err1), s2) = applyLoop x yaml kubeConfig 0 ([], None) s1
              in case err1 of
                   Some e \<Rightarrow> ((obj, Some (applyFailed e output)), s2)
                 | None \<Rightarrow> removeCompanions x obj kubeConfig output s2))"

text \<open>The events of \<open>n\<close> refused pushes, each followed by its five-second sleep.\<close>

definition refusedPushes :: "bytes \<Rightarrow> kubeConfig \<Rightarrow> nat \<Rightarrow> event list" where
  "refusedPushes yaml kubeConfig n = concat (replicate n [EvKubectlApply yaml kubeConfig, EvSleep 5])"

text \<open>
  The removal of the authentication workload is escalated: it was due, it failed, and its
  output does not say that the workload is absent.
\<close>

definition authDeleteEscalates :: "ext \<Rightarrow> cluster \<Rightarrow> kubeConfig \<Rightarrow> state \<Rightarrow> bool" where
  "authDeleteEscalates x obj kubeConfig s =
     (authDeleteDue obj \<and>
      (case KubectlDelete x (trace s) (AuthDaemonSet x) kubeConfig of
         (output, Some e) \<Rightarrow> \<not> Contains output authNotFound
       | (output, None) \<Rightarrow> False))"

section \<open>Agent deployment\<close>

definition getDesiredImage :: "cluster \<Rightarrow> string" where
  "getDesiredImage obj =
     (if AgentImageOverride (Spec obj) \<noteq> [] then AgentImageOverride (Spec obj)
      else DesiredAgentImage (Spec obj))"

text \<open>The assignments at the end of \<^verbatim>\<open>deployAgent\<close>, in the order of the source.\<close>

definition commitState :: "cluster \<Rightarrow> string \<Rightarrow> string \<Rightarrow> (string, bool) gomap \<Rightarrow> cluster" where
  "commitState obj desiredAgent desiredAuth desiredFeatures =
     (let c1 = obj\<lparr>Status := (Status obj)\<lparr>AgentImage := desiredAgent,
                                              AgentFeatures := desiredFeatures\<rparr>\<rparr>;
          c2 = (if DesiredAgentImage (Spec c1) = ''fixed''
                then c1\<lparr>Spec := (Spec c1)\<lparr>DesiredAgentImage := desiredAgent\<rparr>\<rparr> else c1);
          c3 = c2\<lparr>Status := (Status c2)\<lparr>AuthImage := desiredAuth\<rparr>\<rparr>;
          c4 = (if DesiredAuthImage (Spec c3) = ''fixed''
                then c3\<lparr>Spec := (Spec c3)\<lparr>DesiredAuthImage := desiredAuth\<rparr>\<rparr> else c3);
          c5 = (if indexString (Annotations c4) AgentForceDeployAnn = ''true''
                then c4\<lparr>Annotations :=
                          Some (assign (entries (Annotations c4)) AgentForceDeployAnn ''false'')\<rparr>
                else c4)
      in c5\<lparr>Status := (Status c5)\<lparr>AppliedAgentEnvVars := AgentEnvVars (Spec c5)\<rparr>\<rparr>)"

definition resolveDesiredAgent :: "ext \<Rightarrow> cluster \<Rightarrow> state \<Rightarrow> string \<times> state" where
  "resolveDesiredAgent x obj s =
     (let desiredAgent = getDesiredImage obj in
      if desiredAgent = [] \<or> desiredAgent = ''fixed''
      then (ResolveAgentImage x (trace s) obj, logEvent (EvResolveAgentImage (Name obj)) s)
      else (desiredAgent, s))"

definition resolveDesiredAuth :: "ext \<Rightarrow> cluster \<Rightarrow> state \<Rightarrow> string \<times> state" where
  "resolveDesiredAuth x obj s =
     (if LocalClusterAuthEndpointEnabled (Spec obj) then
        (let desiredAuth = DesiredAuthImage (Spec obj) in
         if desiredAuth = [] \<or> desiredAuth = ''fixed''
         then (ResolveAuthImage x (trace s) obj, logEvent (EvResolveAuthImage (Name obj)) s)
         else (desiredAuth, s))
      else ([], s))"

definition deployAgent :: "ext \<Rightarrow> cluster \<Rightarrow> state \<Rightarrow> (cluster \<times> error option) \<times> state" where
  "deployAgent x obj s =
     (if Internal (Spec obj) then ((obj, None), s)
      else
        (let (desiredAgent, s1) = resolveDesiredAgent x obj s;
             (desiredAuth, s2) = resolveDesiredAuth x obj s1;
             desiredFeatures = Some [];
             (taints, s3) = getControlPlaneTaints x (Name obj) s2
         in case taints of
              Inl err \<Rightarrow> ((obj, Some err), s3)
            | Inr desiredTaints \<Rightarrow>
                (let (redeploy, s4) =
                       redeployAgent obj desiredAgent desiredAuth desiredFeatures desiredTaints s3
                 in if \<not> redeploy then ((obj, None), s4)
                    else
                      (let (kc, s5) = getKubeConfig x obj s4
                       in case kc of
                            Inl err \<Rightarrow> ((obj, Some err), s5)
                          | Inr kubeConfig \<Rightarrow>
                              (let ((obj1, err1), s6) =
                                     Do ClusterConditionAgentDeployed
                                       (applyAgent x obj desiredAgent desiredAuth desiredFeatures
                                          desiredTaints kubeConfig) s5
                               in case err1 of
                                    Some err \<Rightarrow> ((obj1, Some err), s6)
                                  | None \<Rightarrow>
                                      (let (err2, s7) = cacheAgentImages x (Name obj1) s6
                                       in case err2 of
                                            Some err \<Rightarrow> ((obj1, Some err), s7)
                                          | None \<Rightarrow>
                                              ((commitState obj1 desiredAgent desiredAuth
                                                  desiredFeatures, None), s7)))))))"

text \<open>Assigning into the annotations of a cluster that has none panics.\<close>

definition setNetworkPolicyAnn :: "cluster \<Rightarrow> result \<times> cluster" where
  "setNetworkPolicyAnn obj =
     (if EnableNetworkPolicy (Spec obj) \<noteq> None then (Return None, obj)
      else
        (case RancherKubernetesEngineConfig (Spec obj) of
           None \<Rightarrow> (Return None, obj)
         | Some config \<Rightarrow>
             (if NetworkPlugin config = ''canal'' then
                (let c1 = obj\<lparr>Spec := (Spec obj)\<lparr>EnableNetworkPolicy := Some True\<rparr>\<rparr>
                 in case Annotations c1 of
                      None \<Rightarrow> (Panic, c1)
                    | Some kvs \<Rightarrow>
                        (Return None,
                         c1\<lparr>Annotations :=
                              Some (assign kvs
                                ''networking.management.cattle.io/enable-network-policy''
                                ''true'')\<rparr>))
              else (Return None, obj))))"

section \<open>The reconcile pass\<close>

definition createSystemAccount :: "ext \<Rightarrow> cluster \<Rightarrow> state \<Rightarrow> (cluster \<times> error option) \<times> state" where
  "createSystemAccount x obj s =
     ((obj, CreateSystemAccount x (trace s) obj), logEvent (EvCreateSystemAccount (Name obj)) s)"

definition doSync :: "ext \<Rightarrow> cluster \<Rightarrow> state \<Rightarrow> (cluster \<times> result) \<times> state" where
  "doSync x obj s =
     (if \<not> IsTrue ClusterConditionProvisioned obj then ((obj, Return None), s)
      else
        (let listed = NodeList x (trace s) (Name obj);
             s1 = logEvent (EvNodeList (Name obj)) s
         in case listed of
              Inl err \<Rightarrow> ((obj, Return (Some err)), s1)
            | Inr nodes \<Rightarrow>
                (if length nodes = 0 then ((obj, Return None), s1)
                 else
                   (let ((obj1, err1), s2) =
                          DoUntilTrue ClusterConditionSystemAccountCreated obj
                            (createSystemAccount x obj) s1
                    in case err1 of
                         Some err \<Rightarrow> ((obj1, Return (Some err)), s2)
                       | None \<Rightarrow>
                           (let (err2, s3) =
                                  (if AgentImage (Status obj1) \<noteq> []
                                      \<and> \<not> agentImagesCached (Name obj1) s2
                                   then cacheAgentImages x (Name obj1) s2 else (None, s2))
                            in case err2 of
                                 Some err \<Rightarrow> ((obj1, Return (Some err)), s3)
                               | None \<Rightarrow>
                                   (let (err3, s4) =
                                          (if \<not> controlPlaneTaintsCached (Name obj1) s3
                                           then cacheControlPlaneTaints x (Name obj1) s3
                                           else (None, s3))
                                    in case err3 of
                                         Some err \<Rightarrow> ((obj1, Return (Some err)), s4)
                                       | None \<Rightarrow>
                                           (let ((obj2, err4), s5) = deployAgent x obj1 s4
                                            in case err4 of
                                                 Some err \<Rightarrow> ((obj2, Return (Some err)), s5)
                                               | None \<Rightarrow>
                                                   (let (r, obj3) = setNetworkPolicyAnn obj2
                                                    in ((obj3, r), s5)))))))))"

text \<open>
  The strategy assignment of \<^verbatim>\<open>sync\<close> dereferences the engine configuration of the copy:
  for a cluster of the engine driver that has none, the pass panics.
\<close>

definition setStrategy :: "cluster \<Rightarrow> cluster option" where
  "setStrategy obj =
     (if Driver (Status obj) = ClusterDriverRKE then
        (case RancherKubernetesEngineConfig (Spec obj) of
           None \<Rightarrow> None
         | Some config \<Rightarrow>
             Some (obj\<lparr>Spec := (Spec obj)\<lparr>RancherKubernetesEngineConfig :=
                     Some (config\<lparr>AuthenticationStrategy :=
                       (if LocalClusterAuthEndpointEnabled (Spec obj)
                        then ''x509|webhook'' else ''x509'')\<rparr>)\<rparr>\<rparr>))
      else Some obj)"

definition removeAccount :: "ext \<Rightarrow> string \<Rightarrow> state \<Rightarrow> result \<times> state" where
  "removeAccount x key s =
     (case RemoveSystemAccount x (trace s) key of
        Some err \<Rightarrow> (Return (Some err), logEvent (EvRemoveSystemAccount key) s)
      | None \<Rightarrow> (Return None, logEvent (EvRemoveSystemAccount key) s))"

definition sync :: "ext \<Rightarrow> string \<Rightarrow> cluster option \<Rightarrow> state \<Rightarrow> result \<times> state" where
  "sync x key arg s =
     (case arg of
        None \<Rightarrow> removeAccount x key s
      | Some original \<Rightarrow>
          (if DeletionTimestamp original \<noteq> None then removeAccount x key s
           else
             (case setStrategy original of
                None \<Rightarrow> (Panic, s)
              | Some copy \<Rightarrow>
                  (let ((obj, r), s1) = doSync x copy s
                   in case r of
                        Panic \<Rightarrow> (Panic, s1)
                      | Return err \<Rightarrow>
                          (let (updateErr, s2) =
                                 (if obj \<noteq> original
                                  then (Update x (trace s1) obj, logEvent (EvUpdate obj) s1)
                                  else (None, s1))
                           in if err \<noteq> None then (Return err, s2)
                              else (Return updateErr, s2))))))"

section \<open>Concrete clusters and collaborators\<close>

text \<open>
  An imported cluster that is provisioned and deployed, whose recorded state equals the
  desired state, with a warm cache; and variations of it.
\<close>

definition exampleSpec :: clusterSpec where
  "exampleSpec =
     \<lparr>Internal = False, LocalClusterAuthEndpointEnabled = False,
      RancherKubernetesEngineConfig = None, AgentImageOverride = [],
      DesiredAgentImage = ''rancher/agent:v2'', DesiredAuthImage = [],
      AgentEnvVars = None, EnableNetworkPolicy = None, WindowsPreferedCluster = False\<rparr>"

definition exampleStatus :: clusterStatus where
  "exampleStatus =
     \<lparr>Driver = ''imported'', AgentImage = ''rancher/agent:v2'', AuthImage = [],
      AgentFeatures = None, AppliedSpec = exampleSpec, AppliedAgentEnvVars = None,
      Conditions =
        [\<lparr>condType = ''Provisioned'', condStatus = ''True'', condMessage = []\<rparr>,
         \<lparr>condType = ''AgentDeployed'', condStatus = ''True'', condMessage = []\<rparr>]\<rparr>"

definition exampleCluster :: cluster where
  "exampleCluster =
     \<lparr>Name = ''c-1'', DeletionTimestamp = None, Annotations = None,
      Spec = exampleSpec, Status = exampleStatus\<rparr>"

definition exampleState :: state where
  "exampleState =
     \<lparr>trace = [],
      agentImagesNode = Map.empty,
      agentImagesCluster = [''c-1'' \<mapsto> ''rancher/agent:v2''],
      controlPlaneTaints = [''c-1'' \<mapsto> []]\<rparr>"

text \<open>The same cluster before its first deployment.\<close>

definition freshCluster :: cluster where
  "freshCluster =
     exampleCluster\<lparr>Status := exampleStatus\<lparr>Conditions :=
       [\<lparr>condType = ''Provisioned'', condStatus = ''True'', condMessage = []\<rparr>]\<rparr>\<rparr>"

text \<open>The local cluster.\<close>

definition localCluster :: cluster where
  "localCluster = exampleCluster\<lparr>Name := ''local'', Spec := exampleSpec\<lparr>Internal := True\<rparr>\<rparr>"

text \<open>A cluster whose authentication endpoint was switched off after it had been applied.\<close>

definition authCluster :: cluster where
  "authCluster =
     exampleCluster\<lparr>Status := exampleStatus\<lparr>AuthImage := ''rancher/kube-api-auth:v1'',
       AppliedSpec := exampleSpec\<lparr>LocalClusterAuthEndpointEnabled := True\<rparr>\<rparr>\<rparr>"

text \<open>
  An engine-driver cluster to whose desired spec a private registry was added; the
  last-applied spec records none.
\<close>

definition exampleRegistry :: PrivateRegistry where
  "exampleRegistry =
     \<lparr>URL = ''registry.example.com'', User = ''agent'', Password = ''secret'', IsDefault = True\<rparr>"

definition registryCluster :: cluster where
  "registryCluster =
     exampleCluster\<lparr>
       Spec := exampleSpec\<lparr>RancherKubernetesEngineConfig :=
         Some \<lparr>AuthenticationStrategy = ''x509'', PrivateRegistries = [exampleRegistry],
               NetworkPlugin = ''canal''\<rparr>\<rparr>,
       Status := exampleStatus\<lparr>Driver := ClusterDriverRKE,
         AppliedSpec := exampleSpec\<lparr>RancherKubernetesEngineConfig :=
           Some \<lparr>AuthenticationStrategy = ''x509'', PrivateRegistries = [],
                 NetworkPlugin = ''canal''\<rparr>\<rparr>\<rparr>\<rparr>"

definition registryState :: state where
  "registryState =
     \<lparr>trace = [],
      agentImagesNode = [''c-1'' \<mapsto> ''rancher/agent:v2''],
      agentImagesCluster = [''c-1'' \<mapsto> ''rancher/agent:v2''],
      controlPlaneTaints = [''c-1'' \<mapsto> []]\<rparr>"

text \<open>An engine-driver cluster that is not provisioned yet and records no strategy.\<close>

definition pendingCluster :: cluster where
  "pendingCluster =
     exampleCluster\<lparr>
       Spec := exampleSpec\<lparr>RancherKubernetesEngineConfig :=
         Some \<lparr>AuthenticationStrategy = [], PrivateRegistries = [], NetworkPlugin = ''canal''\<rparr>\<rparr>,
       Status := exampleStatus\<lparr>Driver := ClusterDriverRKE, AgentImage := [],
         Conditions := []\<rparr>\<rparr>"

text \<open>An imported cluster that is not provisioned yet.\<close>

definition importedPending :: cluster where
  "importedPending =
     exampleCluster\<lparr>Status := exampleStatus\<lparr>AgentImage := [], Conditions := []\<rparr>\<rparr>"

text \<open>
  Collaborators that answer every call, except that the first four pushes of a manifest
  are refused, that deleting the authentication workload fails for a reason other than its
  absence, and that the node-level workload is already gone.
\<close>

fun pushes :: "event list \<Rightarrow> nat" where
  "pushes [] = 0"
| "pushes (EvKubectlApply yaml kubeConfig # es) = Suc (pushes es)"
| "pushes (e # es) = pushes es"

definition exampleExt :: ext where
  \<open>exampleExt =
     \<lparr>RemoveSystemAccount = (\<lambda>tr key. None),
      NodeList = (\<lambda>tr name. Inr []),
      CreateSystemAccount = (\<lambda>tr obj. None),
      GetSystemUser = (\<lambda>tr name. Inr ''u-system''),
      EnsureToken = (\<lambda>tr a b c d. Inr ''token-1''),
      KubeConfig = (\<lambda>tr name token. ''kubeconfig-1''),
      GetOrCreateSystemClusterToken = (\<lambda>tr name. Inr ''token-2''),
      ServerURLGet = (\<lambda>tr. ''https://rancher.example.com''),
      SystemTemplate = (\<lambda>tr a b c d e f g h i. (''manifest'', None)),
      ResolveAgentImage = (\<lambda>tr obj. ''rancher/agent:v2''),
      ResolveAuthImage = (\<lambda>tr obj. ''rancher/kube-api-auth:v1''),
      UserContext = (\<lambda>tr name. None),
      GetDeployment = (\<lambda>tr name. Inr []),
      GetDaemonSet = (\<lambda>tr name. Inl (NotFound ''not found'')),
      KubectlApply = (\<lambda>tr yaml kc.
         if pushes tr < 4 then (''forbidden'', Some (ErrorNew ''exit status 1''))
         else (''created'', None)),
      KubectlDelete = (\<lambda>tr yaml kc.
         if yaml = ''auth''
         then (''connection refused'', Some (ErrorNew ''exit status 1''))
         else (''Error: daemonsets.apps "cattle-node-agent" not found'',
               Some (ErrorNew ''exit status 1''))),
      Update = (\<lambda>tr obj. None),
      AuthDaemonSet = ''auth'',
      NodeAgentDaemonSet = ''node-agent''\<rparr>\<close>

text \<open>Process states with empty values cached, a stale image and a stale taint.\<close>

definition cachedEmpty :: state where
  "cachedEmpty =
     \<lparr>trace = [], agentImagesNode = [''c-1'' \<mapsto> []], agentImagesCluster = [''c-1'' \<mapsto> []],
      controlPlaneTaints = [''c-1'' \<mapsto> []]\<rparr>"

definition staleImages :: state where
  "staleImages = exampleState\<lparr>agentImagesCluster := [''c-1'' \<mapsto> ''rancher/agent:v1'']\<rparr>"

definition exampleTaint :: Taint where
  "exampleTaint = \<lparr>Key = ''node-role.kubernetes.io/etcd'', Value = ''true'', Effect = ''NoExecute''\<rparr>"

definition staleTaints :: state where
  "staleTaints = exampleState\<lparr>controlPlaneTaints := [''c-1'' \<mapsto> [exampleTaint]]\<rparr>"

section \<open>Properties of the feature-flag diff\<close>

lemma rangeDiffers_iff:
  "rangeDiffers kvs other = (\<exists>(k, v) \<in> set kvs. indexBool other k \<noteq> v)"
  by (induction kvs other rule: rangeDiffers.induct) auto

lemma distinct_entry_index:
  assumes "wellFormed m" and "(k, v) \<in> set (entries m)"
  shows "indexBool m k = v"
  using assms by (simp add: wellFormed_def indexBool_def)

lemma rangeDiffers_wellFormed:
  assumes "wellFormed m"
  shows "rangeDiffers (entries m) other = (\<exists>k \<in> keys m. indexBool other k \<noteq> indexBool m k)"
proof
  assume "rangeDiffers (entries m) other"
  then obtain k v where kv: "(k, v) \<in> set (entries m)" and d: "indexBool other k \<noteq> v"
    by (auto simp: rangeDiffers_iff)
  have "k \<in> keys m" using kv by (force simp: keys_def)
  moreover have "indexBool m k = v" using assms kv by (rule distinct_entry_index)
  ultimately show "\<exists>k \<in> keys m. indexBool other k \<noteq> indexBool m k" using d by auto
next
  assume "\<exists>k \<in> keys m. indexBool other k \<noteq> indexBool m k"
  then obtain k where k: "k \<in> keys m" and d: "indexBool other k \<noteq> indexBool m k" by auto
  from k obtain v where kv: "(k, v) \<in> set (entries m)" by (auto simp: keys_def)
  have "indexBool m k = v" using assms kv by (rule distinct_entry_index)
  then show "rangeDiffers (entries m) other" using kv d by (auto simp: rangeDiffers_iff)
qed

text \<open>
  C2. For all feature maps A (desired) and B (observed), each with distinct keys as a Go
  map has, the feature diff returns false if and only if every key present in either map
  has the same effective boolean value in both, a missing key counting as false.
\<close>

theorem agentFeaturesChanged_false_iff:
  assumes "wellFormed A" and "wellFormed B"
  shows "(agentFeaturesChanged A B = False) =
         (\<forall>k \<in> keys A \<union> keys B. indexBool A k = indexBool B k)"
  using assms by (auto simp: agentFeaturesChanged_def rangeDiffers_wellFormed)

theorem agentFeaturesChanged_false_iff_witness:
  "wellFormed (Some [(''x'', True), (''y'', False)]) \<and> wellFormed (Some [(''x'', True)]) \<and>
   agentFeaturesChanged (Some [(''x'', True), (''y'', False)]) (Some [(''x'', True)]) = False \<and>
   indexBool (Some [(''x'', True), (''y'', False)]) ''x'' = indexBool (Some [(''x'', True)]) ''x'' \<and>
   indexBool (Some [(''x'', True), (''y'', False)]) ''y'' = indexBool (Some [(''x'', True)]) ''y''"
proof -
  have a: "wellFormed (Some [(''x'', True), (''y'', False)])"
    by (simp add: wellFormed_def entries_def)
  have b: "wellFormed (Some [(''x'', True)])"
    by (simp add: wellFormed_def entries_def)
  have k: "keys (Some [(''x'', True), (''y'', False)]) \<union> keys (Some [(''x'', True)]) = {''x'', ''y''}"
    by (auto simp: keys_def entries_def)
  show ?thesis
    using a b agentFeaturesChanged_false_iff [OF a b] unfolding k
    by (simp add: indexBool_def entries_def)
qed

text \<open>
  Scenario 3 of the spec: a flag that is observed as true is not cleared by leaving it out
  of the desired map, and a flag that is desired is detected.
\<close>

lemma agentFeaturesChanged_scenario:
  "agentFeaturesChanged (Some [(''x'', True)]) (Some []) \<and>
   agentFeaturesChanged (Some []) (Some [(''x'', True)]) \<and>
   \<not> agentFeaturesChanged (Some []) None"
  by (simp add: agentFeaturesChanged_def entries_def indexBool_def)

section \<open>Properties of the redeploy decision\<close>

lemmas example_defs =
  exampleCluster_def exampleStatus_def exampleSpec_def exampleState_def
  ClusterConditionAgentDeployed_def ClusterConditionProvisioned_def ClusterDriverRKE_def
  AgentForceDeployAnn_def

lemmas decision_defs =
  redeployAgent_def IsTrue_def getStatus_def forceDeploy_def imageChange_def repoChange_def
  imageMismatch_def taintMismatch_def agentFeaturesChanged_def GetPrivateRepo_def
  GetToDiffTaints_def getAgentImages_def getCachedTaints_def indexString_def indexBool_def
  entries_def clearAgentImages_def clearControlPlaneTaints_def

text \<open>
  C8. For every cluster whose AgentDeployed condition is not yet true, the decision
  returns true whatever the images, features, taints, registries, environment variables
  and the force-deploy annotation are; the caches are left as they were.
\<close>

theorem redeployAgent_not_deployed:
  assumes "\<not> IsTrue ClusterConditionAgentDeployed obj"
  shows "redeployAgent obj desiredAgent desiredAuth desiredFeatures desiredTaints s = (True, s)"
  using assms by (simp add: redeployAgent_def)

theorem redeployAgent_not_deployed_witness:
  "\<not> IsTrue ClusterConditionAgentDeployed freshCluster \<and>
   redeployAgent freshCluster ''rancher/agent:v2'' [] (Some []) [] exampleState
     = (True, exampleState)"
proof -
  have h: "\<not> IsTrue ClusterConditionAgentDeployed freshCluster"
    by (simp add: freshCluster_def IsTrue_def getStatus_def example_defs)
  show ?thesis
    using h redeployAgent_not_deployed [OF h, of "''rancher/agent:v2''" "[]" "Some []" "[]" exampleState]
    by simp
qed

text \<open>
  Scenario 2 of the spec: the same cluster once it is deployed, with identical images, no
  features, identical taints and environment variables and no annotation, is left alone.
\<close>

lemma redeployAgent_up_to_date:
  "redeployAgent exampleCluster ''rancher/agent:v2'' [] (Some []) [] exampleState
     = (False, exampleState)"
  by (simp add: decision_defs example_defs)

text \<open>
  C1. A cluster whose desired private registry is non-nil while the last-applied spec
  records no private registry should report a private-registry change. The code does not:
  the comparison runs only when the last-applied spec holds at least one registry, so its
  branch for a nil applied registry is never taken. At the cluster below the desired
  registry is set, the applied spec has none, \<open>repoChange\<close> is false, and with every other
  facet equal the decision is false.
\<close>

theorem repoChange_registry_added:
  "GetPrivateRepo registryCluster = Some exampleRegistry \<and>
   map_option PrivateRegistries
     (RancherKubernetesEngineConfig (AppliedSpec (Status registryCluster))) = Some [] \<and>
   repoChange registryCluster = False \<and>
   redeployAgent registryCluster ''rancher/agent:v2'' [] (Some []) [] registryState
     = (False, registryState)"
  by (simp add: decision_defs registryCluster_def registryState_def example_defs)

text \<open>The part of the claim that the code keeps: no registry on either side is no change.\<close>

lemma repoChange_none_applied:
  assumes "map_option PrivateRegistries
     (RancherKubernetesEngineConfig (AppliedSpec (Status obj))) \<in> {None, Some []}"
  shows "repoChange obj = False"
  using assms by (auto simp: repoChange_def split: option.splits list.splits)

text \<open>
  A decision of false clears nothing, so repeating it at once gives false again; only a
  decision that found a stale cache entry changes the process state.
\<close>

lemma redeployAgent_false_unchanged:
  assumes "fst (redeployAgent obj desiredAgent desiredAuth desiredFeatures desiredTaints s) = False"
  shows "redeployAgent obj desiredAgent desiredAuth desiredFeatures desiredTaints s = (False, s)"
  using assms by (simp add: redeployAgent_def split: if_splits)

text \<open>What the two mismatch tests read once the decision has cleared an entry.\<close>

lemma imageMismatch_cleared:
  "imageMismatch obj (clearAgentImages (Name obj) s) = (AgentImage (Status obj) \<noteq> [])"
  "imageMismatch obj (clearControlPlaneTaints n s) = imageMismatch obj s"
  by (auto simp: imageMismatch_def getAgentImages_def clearAgentImages_def
      clearControlPlaneTaints_def)

lemma taintMismatch_cleared:
  "taintMismatch obj desiredTaints (clearControlPlaneTaints (Name obj) s) = (desiredTaints \<noteq> [])"
  "taintMismatch obj desiredTaints (clearAgentImages n s) = taintMismatch obj desiredTaints s"
  by (simp_all add: taintMismatch_def getCachedTaints_def GetToDiffTaints_def
      clearAgentImages_def clearControlPlaneTaints_def)

text \<open>
  C9, as stated: two invocations in a row with identical inputs, nothing else writing to
  the caches in between, return the same boolean. They do not when the first invocation
  itself clears a stale entry. For the deployed cluster below the cached taints hold a
  taint that is no longer desired: the first invocation returns true and deletes the
  taint entry of the cluster, leaving the image cache alone; the second reads no cached
  taints, finds them equal to the empty desired list, and returns false.
\<close>

theorem redeployAgent_repeat_counterexample:
  "fst (redeployAgent exampleCluster ''rancher/agent:v2'' [] (Some []) [] staleTaints) = True \<and>
   controlPlaneTaints
     (snd (redeployAgent exampleCluster ''rancher/agent:v2'' [] (Some []) [] staleTaints))
     = (controlPlaneTaints staleTaints)(''c-1'' := None) \<and>
   agentImagesNode
     (snd (redeployAgent exampleCluster ''rancher/agent:v2'' [] (Some []) [] staleTaints))
     = agentImagesNode staleTaints \<and>
   agentImagesCluster
     (snd (redeployAgent exampleCluster ''rancher/agent:v2'' [] (Some []) [] staleTaints))
     = agentImagesCluster staleTaints \<and>
   fst (redeployAgent exampleCluster ''rancher/agent:v2'' [] (Some []) []
          (snd (redeployAgent exampleCluster ''rancher/agent:v2'' [] (Some []) [] staleTaints)))
     = False"
  by (simp add: decision_defs example_defs staleTaints_def)

text \<open>
  C9, amended. Two invocations in a row with identical inputs, nothing else writing to the
  caches in between, return the same boolean except when the first one cleared a stale
  cache entry and nothing else asks for a redeploy: the cluster is deployed, no
  annotation, image, registry or feature change is pending, the environment variables are
  applied, and either the taint entry was stale and no taint is desired, or the image
  entries were stale, no agent image is recorded and the cached taints agree with the
  desired ones. In that case the results are true, then false. A result of false is
  always repeated, with the process state unchanged; results that differ are true first,
  and the first invocation has changed the caches.
\<close>

theorem redeployAgent_repeat:
  "((fst (redeployAgent obj desiredAgent desiredAuth desiredFeatures desiredTaints
            (snd (redeployAgent obj desiredAgent desiredAuth desiredFeatures desiredTaints s)))
      = fst (redeployAgent obj desiredAgent desiredAuth desiredFeatures desiredTaints s))
    = (\<not> (IsTrue ClusterConditionAgentDeployed obj
          \<and> \<not> (forceDeploy obj \<or> imageChange obj desiredAgent desiredAuth \<or> repoChange obj
                 \<or> agentFeaturesChanged desiredFeatures (AgentFeatures (Status obj)))
          \<and> AgentEnvVars (Spec obj) = AppliedAgentEnvVars (Status obj)
          \<and> ((imageMismatch obj s \<and> AgentImage (Status obj) = []
                \<and> \<not> taintMismatch obj desiredTaints s)
              \<or> (\<not> imageMismatch obj s \<and> taintMismatch obj desiredTaints s
                  \<and> desiredTaints = [])))))
   \<and> (fst (redeployAgent obj desiredAgent desiredAuth desiredFeatures desiredTaints s) = False
        \<longrightarrow> redeployAgent obj desiredAgent desiredAuth desiredFeatures desiredTaints
              (snd (redeployAgent obj desiredAgent desiredAuth desiredFeatures desiredTaints s))
            = (False, s))
   \<and> (fst (redeployAgent obj desiredAgent desiredAuth desiredFeatures desiredTaints
            (snd (redeployAgent obj desiredAgent desiredAuth desiredFeatures desiredTaints s)))
      \<noteq> fst (redeployAgent obj desiredAgent desiredAuth desiredFeatures desiredTaints s)
        \<longrightarrow> fst (redeployAgent obj desiredAgent desiredAuth desiredFeatures desiredTaints s) = True
          \<and> snd (redeployAgent obj desiredAgent desiredAuth desiredFeatures desiredTaints s) \<noteq> s)"
proof (intro conjI impI)
  show "(fst (redeployAgent obj desiredAgent desiredAuth desiredFeatures desiredTaints
            (snd (redeployAgent obj desiredAgent desiredAuth desiredFeatures desiredTaints s)))
      = fst (redeployAgent obj desiredAgent desiredAuth desiredFeatures desiredTaints s))
    = (\<not> (IsTrue ClusterConditionAgentDeployed obj
          \<and> \<not> (forceDeploy obj \<or> imageChange obj desiredAgent desiredAuth \<or> repoChange obj
                 \<or> agentFeaturesChanged desiredFeatures (AgentFeatures (Status obj)))
          \<and> AgentEnvVars (Spec obj) = AppliedAgentEnvVars (Status obj)
          \<and> ((imageMismatch obj s \<and> AgentImage (Status obj) = []
                \<and> \<not> taintMismatch obj desiredTaints s)
              \<or> (\<not> imageMismatch obj s \<and> taintMismatch obj desiredTaints s
                  \<and> desiredTaints = []))))"
    by (auto simp: redeployAgent_def imageMismatch_cleared taintMismatch_cleared)
next
  assume "fst (redeployAgent obj desiredAgent desiredAuth desiredFeatures desiredTaints s) = False"
  then have "redeployAgent obj desiredAgent desiredAuth desiredFeatures desiredTaints s = (False, s)"
    by (rule redeployAgent_false_unchanged)
  then show "redeployAgent obj desiredAgent desiredAuth desiredFeatures desiredTaints
              (snd (redeployAgent obj desiredAgent desiredAuth desiredFeatures desiredTaints s))
            = (False, s)"
    by simp
next
  assume d: "fst (redeployAgent obj desiredAgent desiredAuth desiredFeatures desiredTaints
            (snd (redeployAgent obj desiredAgent desiredAuth desiredFeatures desiredTaints s)))
      \<noteq> fst (redeployAgent obj desiredAgent desiredAuth desiredFeatures desiredTaints s)"
  show "fst (redeployAgent obj desiredAgent desiredAuth desiredFeatures desiredTaints s) = True"
  proof (rule ccontr)
    assume "fst (redeployAgent obj desiredAgent desiredAuth desiredFeatures desiredTaints s) \<noteq> True"
    then have "redeployAgent obj desiredAgent desiredAuth desiredFeatures desiredTaints s = (False, s)"
      using redeployAgent_false_unchanged by simp
    then show False using d by simp
  qed
  show "snd (redeployAgent obj desiredAgent desiredAuth desiredFeatures desiredTaints s) \<noteq> s"
    using d by auto
qed

theorem redeployAgent_repeat_witness:
  "fst (redeployAgent exampleCluster ''rancher/agent:v2'' [] (Some []) [] staleImages) = True \<and>
   snd (redeployAgent exampleCluster ''rancher/agent:v2'' [] (Some []) [] staleImages)
     = clearAgentImages ''c-1'' staleImages \<and>
   fst (redeployAgent exampleCluster ''rancher/agent:v2'' [] (Some []) []
          (snd (redeployAgent exampleCluster ''rancher/agent:v2'' [] (Some []) [] staleImages)))
     = True \<and>
   redeployAgent exampleCluster ''rancher/agent:v2'' [] (Some []) [] exampleState
     = (False, exampleState) \<and>
   redeployAgent exampleCluster ''rancher/agent:v2'' [] (Some []) []
     (snd (redeployAgent exampleCluster ''rancher/agent:v2'' [] (Some []) [] exampleState))
     = (False, exampleState) \<and>
   fst (redeployAgent exampleCluster ''rancher/agent:v2'' [] (Some []) []
          (snd (redeployAgent exampleCluster ''rancher/agent:v2'' [] (Some []) [] staleTaints)))
     \<noteq> fst (redeployAgent exampleCluster ''rancher/agent:v2'' [] (Some []) [] staleTaints) \<and>
   fst (redeployAgent exampleCluster ''rancher/agent:v2'' [] (Some []) [] staleTaints) = True \<and>
   snd (redeployAgent exampleCluster ''rancher/agent:v2'' [] (Some []) [] staleTaints) \<noteq> staleTaints"
proof -
  have n: "Name exampleCluster = ''c-1''" by (simp add: exampleCluster_def)
  have a: "AgentImage (Status exampleCluster) \<noteq> []" by (simp add: example_defs)
  have i: "redeployAgent exampleCluster ''rancher/agent:v2'' [] (Some []) [] staleImages
             = (True, clearAgentImages ''c-1'' staleImages)"
    by (simp add: redeployAgent_def IsTrue_def getStatus_def forceDeploy_def imageChange_def
        repoChange_def imageMismatch_def agentFeaturesChanged_def getAgentImages_def
        indexString_def indexBool_def entries_def example_defs staleImages_def)
  have f: "redeployAgent exampleCluster ''rancher/agent:v2'' [] (Some []) [] exampleState
             = (False, exampleState)"
    by (simp add: decision_defs example_defs)
  have t: "fst (redeployAgent exampleCluster ''rancher/agent:v2'' [] (Some []) []
          (snd (redeployAgent exampleCluster ''rancher/agent:v2'' [] (Some []) [] staleTaints)))
     \<noteq> fst (redeployAgent exampleCluster ''rancher/agent:v2'' [] (Some []) [] staleTaints)"
    by (simp add: decision_defs example_defs staleTaints_def)
  have m: "imageMismatch exampleCluster staleImages"
    by (simp add: decision_defs example_defs staleImages_def)
  note r1 = redeployAgent_repeat [of exampleCluster "''rancher/agent:v2''" "[]" "Some []" "[]" staleImages]
  note r2 = redeployAgent_repeat [of exampleCluster "''rancher/agent:v2''" "[]" "Some []" "[]" exampleState]
  note r3 = redeployAgent_repeat [of exampleCluster "''rancher/agent:v2''" "[]" "Some []" "[]" staleTaints]
  have c1: "fst (redeployAgent exampleCluster ''rancher/agent:v2'' [] (Some []) []
          (snd (redeployAgent exampleCluster ''rancher/agent:v2'' [] (Some []) [] staleImages)))
     = True"
    using r1 [THEN conjunct1] a i m by simp
  have c2: "redeployAgent exampleCluster ''rancher/agent:v2'' [] (Some []) []
     (snd (redeployAgent exampleCluster ''rancher/agent:v2'' [] (Some []) [] exampleState))
     = (False, exampleState)"
    using r2 [THEN conjunct2, THEN conjunct1] f by simp
  have c3: "fst (redeployAgent exampleCluster ''rancher/agent:v2'' [] (Some []) [] staleTaints) = True \<and>
   snd (redeployAgent exampleCluster ''rancher/agent:v2'' [] (Some []) [] staleTaints) \<noteq> staleTaints"
    using r3 [THEN conjunct2, THEN conjunct2] t by blast
  show ?thesis
    using i f t c1 c2 c3 by simp
qed

section \<open>Properties of the caches\<close>

text \<open>
  C3, as stated: a read tells an absent entry from a cached empty value. It does not for
  the image cache. With empty strings cached for a cluster, \<open>getAgentImages\<close> and
  \<open>agentImagesCached\<close> answer exactly as they do after the entry has been cleared; and
  \<open>getCachedTaints\<close> reads the empty list both for a cached empty list and for an absent
  entry.
\<close>

theorem cache_read_empty_counterexample:
  "agentImagesNode cachedEmpty ''c-1'' = Some [] \<and>
   agentImagesCluster cachedEmpty ''c-1'' = Some [] \<and>
   agentImagesNode (clearAgentImages ''c-1'' cachedEmpty) ''c-1'' = None \<and>
   agentImagesCluster (clearAgentImages ''c-1'' cachedEmpty) ''c-1'' = None \<and>
   getAgentImages ''c-1'' cachedEmpty = getAgentImages ''c-1'' (clearAgentImages ''c-1'' cachedEmpty) \<and>
   agentImagesCached ''c-1'' cachedEmpty
     = agentImagesCached ''c-1'' (clearAgentImages ''c-1'' cachedEmpty) \<and>
   controlPlaneTaints cachedEmpty ''c-1'' = Some [] \<and>
   controlPlaneTaints (clearControlPlaneTaints ''c-1'' cachedEmpty) ''c-1'' = None \<and>
   getCachedTaints ''c-1'' cachedEmpty
     = getCachedTaints ''c-1'' (clearControlPlaneTaints ''c-1'' cachedEmpty)"
  by (simp add: cachedEmpty_def getAgentImages_def agentImagesCached_def getCachedTaints_def
      clearAgentImages_def clearControlPlaneTaints_def)

text \<open>
  C3, amended. After a clear the entry is absent and reads as not cached. The presence
  check of the taint cache tells an absent entry from a cached empty list; the image cache
  reads cached empty strings like an absent entry, as not cached. After a decision that
  returns true because of an image mismatch the image entries of the cluster are absent,
  and after one that returns true because of a taint mismatch its taint entry is absent.
\<close>

theorem cache_clear_absent:
  "agentImagesNode (clearAgentImages name s) name = None
   \<and> agentImagesCluster (clearAgentImages name s) name = None
   \<and> getAgentImages name (clearAgentImages name s) = ([], [])
   \<and> agentImagesCached name (clearAgentImages name s) = False
   \<and> controlPlaneTaints (clearControlPlaneTaints name s) name = None
   \<and> controlPlaneTaintsCached name (clearControlPlaneTaints name s) = False
   \<and> getCachedTaints name (clearControlPlaneTaints name s) = []
   \<and> getCachedTaints name (s\<lparr>controlPlaneTaints := (controlPlaneTaints s)(name \<mapsto> [])\<rparr>) = []
   \<and> controlPlaneTaintsCached name (s\<lparr>controlPlaneTaints := (controlPlaneTaints s)(name \<mapsto> [])\<rparr>) = True
   \<and> agentImagesCached name (s\<lparr>agentImagesNode := (agentImagesNode s)(name \<mapsto> []),
                                 agentImagesCluster := (agentImagesCluster s)(name \<mapsto> [])\<rparr>) = False
   \<and> (IsTrue ClusterConditionAgentDeployed obj
        \<and> \<not> (forceDeploy obj \<or> imageChange obj desiredAgent desiredAuth \<or> repoChange obj
               \<or> agentFeaturesChanged desiredFeatures (AgentFeatures (Status obj)))
        \<and> imageMismatch obj s
      \<longrightarrow> fst (redeployAgent obj desiredAgent desiredAuth desiredFeatures desiredTaints s) = True
          \<and> agentImagesNode (snd (redeployAgent obj desiredAgent desiredAuth desiredFeatures desiredTaints s)) (Name obj) = None
          \<and> agentImagesCluster (snd (redeployAgent obj desiredAgent desiredAuth desiredFeatures desiredTaints s)) (Name obj) = None)
   \<and> (IsTrue ClusterConditionAgentDeployed obj
        \<and> \<not> (forceDeploy obj \<or> imageChange obj desiredAgent desiredAuth \<or> repoChange obj
               \<or> agentFeaturesChanged desiredFeatures (AgentFeatures (Status obj)))
        \<and> \<not> imageMismatch obj s
        \<and> taintMismatch obj desiredTaints s
      \<longrightarrow> fst (redeployAgent obj desiredAgent desiredAuth desiredFeatures desiredTaints s) = True
          \<and> controlPlaneTaints (snd (redeployAgent obj desiredAgent desiredAuth desiredFeatures desiredTaints s)) (Name obj) = None)"
  by (simp add: redeployAgent_def clearAgentImages_def clearControlPlaneTaints_def
      getAgentImages_def agentImagesCached_def controlPlaneTaintsCached_def getCachedTaints_def)

text \<open>
  The amended claim at a cluster whose cached cluster-agent image is stale, and at one
  whose cached taints hold a taint that is no longer desired.
\<close>

theorem cache_clear_absent_witness:
  "imageMismatch exampleCluster staleImages \<and>
   fst (redeployAgent exampleCluster ''rancher/agent:v2'' [] (Some []) [] staleImages) = True \<and>
   agentImagesCluster staleImages ''c-1'' = Some ''rancher/agent:v1'' \<and>
   agentImagesCluster
     (snd (redeployAgent exampleCluster ''rancher/agent:v2'' [] (Some []) [] staleImages)) ''c-1'' = None \<and>
   \<not> imageMismatch exampleCluster staleTaints \<and>
   taintMismatch exampleCluster [] staleTaints \<and>
   fst (redeployAgent exampleCluster ''rancher/agent:v2'' [] (Some []) [] staleTaints) = True \<and>
   controlPlaneTaints staleTaints ''c-1'' = Some [exampleTaint] \<and>
   controlPlaneTaints
     (snd (redeployAgent exampleCluster ''rancher/agent:v2'' [] (Some []) [] staleTaints)) ''c-1'' = None"
proof -
  have d: "IsTrue ClusterConditionAgentDeployed exampleCluster"
    by (simp add: decision_defs example_defs)
  have e: "\<not> (forceDeploy exampleCluster \<or> imageChange exampleCluster ''rancher/agent:v2'' []
              \<or> repoChange exampleCluster
              \<or> agentFeaturesChanged (Some []) (AgentFeatures (Status exampleCluster)))"
    by (simp add: decision_defs example_defs)
  have i: "imageMismatch exampleCluster staleImages"
    by (simp add: decision_defs example_defs staleImages_def)
  have j: "\<not> imageMismatch exampleCluster staleTaints"
    by (simp add: decision_defs example_defs staleTaints_def)
  have t: "taintMismatch exampleCluster [] staleTaints"
    by (simp add: decision_defs example_defs staleTaints_def)
  have n: "Name exampleCluster = ''c-1''"
    by (simp add: exampleCluster_def)
  have v: "agentImagesCluster staleImages ''c-1'' = Some ''rancher/agent:v1''"
    by (simp add: staleImages_def)
  have w: "controlPlaneTaints staleTaints ''c-1'' = Some [exampleTaint]"
    by (simp add: staleTaints_def)
  show ?thesis
    using d e i j t v w
      cache_clear_absent [of "''c-1''" staleImages exampleCluster "''rancher/agent:v2''" "[]"
        "Some []" "[]"]
      cache_clear_absent [of "''c-1''" staleTaints exampleCluster "''rancher/agent:v2''" "[]"
        "Some []" "[]"]
    unfolding n by blast
qed

section \<open>Properties of the agent deployment\<close>

text \<open>
  C10. For every cluster marked internal in its spec, the agent-deployment step returns
  success at once: the cluster comes back as it was, no collaborator is called (the trace
  is unchanged, so no decision input is derived, no manifest rendered or applied) and no
  cache is touched.
\<close>

theorem deployAgent_internal:
  assumes "Internal (Spec obj)"
  shows "deployAgent x obj s = ((obj, None), s)"
  using assms by (simp add: deployAgent_def)

theorem deployAgent_internal_witness:
  "Internal (Spec localCluster) \<and>
   deployAgent exampleExt localCluster exampleState = ((localCluster, None), exampleState)"
proof -
  have h: "Internal (Spec localCluster)"
    by (simp add: localCluster_def)
  show ?thesis
    using h deployAgent_internal [OF h, of exampleExt exampleState] by simp
qed

section \<open>Properties of the reconcile pass\<close>

lemma setStrategy_IsTrue:
  assumes "setStrategy obj = Some copy"
  shows "IsTrue t copy = IsTrue t obj"
  using assms
  by (auto simp: setStrategy_def IsTrue_def getStatus_def split: if_splits option.splits)

lemma doSync_not_provisioned:
  assumes "\<not> IsTrue ClusterConditionProvisioned obj"
  shows "doSync x obj s = ((obj, Return None), s)"
  using assms by (simp add: doSync_def)

lemma sync_not_provisioned_step:
  assumes "\<not> IsTrue ClusterConditionProvisioned obj"
      and "DeletionTimestamp obj = None"
      and "setStrategy obj = Some copy"
  shows "sync x key (Some obj) s =
           (if copy \<noteq> obj then (Return (Update x (trace s) copy), logEvent (EvUpdate copy) s)
            else (Return None, s))"
proof -
  have "\<not> IsTrue ClusterConditionProvisioned copy"
    using assms(1) setStrategy_IsTrue [OF assms(3)] by simp
  then have "doSync x copy s = ((copy, Return None), s)"
    by (rule doSync_not_provisioned)
  then show ?thesis
    using assms(2,3) by (simp add: sync_def)
qed

text \<open>
  C5, as stated: the pass is a no-op for every cluster that is not provisioned. It is not
  for an engine-driver cluster whose recorded authentication strategy differs from the
  one the pass derives: the copy is changed before the provisioning check and written
  back.
\<close>

theorem sync_not_provisioned_counterexample:
  "\<not> IsTrue ClusterConditionProvisioned pendingCluster \<and>
   sync exampleExt ''c-1'' (Some pendingCluster) exampleState =
     (Return None,
      exampleState\<lparr>trace :=
        [EvUpdate (pendingCluster\<lparr>Spec := (Spec pendingCluster)\<lparr>RancherKubernetesEngineConfig :=
           Some \<lparr>AuthenticationStrategy = ''x509'', PrivateRegistries = [],
                 NetworkPlugin = ''canal''\<rparr>\<rparr>\<rparr>)]\<rparr>)"
proof -
  have p: "\<not> IsTrue ClusterConditionProvisioned pendingCluster"
    by (simp add: pendingCluster_def IsTrue_def getStatus_def example_defs)
  have d: "DeletionTimestamp pendingCluster = None"
    by (simp add: pendingCluster_def example_defs)
  have c: "setStrategy pendingCluster =
      Some (pendingCluster\<lparr>Spec := (Spec pendingCluster)\<lparr>RancherKubernetesEngineConfig :=
           Some \<lparr>AuthenticationStrategy = ''x509'', PrivateRegistries = [],
                 NetworkPlugin = ''canal''\<rparr>\<rparr>\<rparr>)"
    by (simp add: setStrategy_def pendingCluster_def example_defs)
  have n: "pendingCluster\<lparr>Spec := (Spec pendingCluster)\<lparr>RancherKubernetesEngineConfig :=
           Some \<lparr>AuthenticationStrategy = ''x509'', PrivateRegistries = [],
                 NetworkPlugin = ''canal''\<rparr>\<rparr>\<rparr> \<noteq> pendingCluster"
    by (simp add: pendingCluster_def example_defs)
  show ?thesis
    using p n sync_not_provisioned_step [OF p d c, of exampleExt "''c-1''" exampleState]
    by (simp add: exampleExt_def logEvent_def exampleState_def)
qed

text \<open>
  C5, amended. For every cluster that is not deleted and whose Provisioned condition is not
  yet true, the deployment steps are a no-op: they return success, leave the working copy
  as it is, call no collaborator and touch no cache. The pass as a whole returns success
  without a write-back when the strategy assignment leaves the copy equal to the original
  (the driver is not the engine driver, or the recorded strategy is already the derived
  one); when the assignment changes the copy, the copy is written back and the pass
  returns the result of the write-back.
\<close>

theorem sync_not_provisioned:
  assumes "\<not> IsTrue ClusterConditionProvisioned obj"
      and "DeletionTimestamp obj = None"
  shows "doSync x obj s = ((obj, Return None), s)
         \<and> (setStrategy obj = Some obj \<longrightarrow> sync x key (Some obj) s = (Return None, s))
         \<and> (setStrategy obj = Some copy \<and> copy \<noteq> obj \<longrightarrow>
              sync x key (Some obj) s
                = (Return (Update x (trace s) copy), logEvent (EvUpdate copy) s))"
  using doSync_not_provisioned [OF assms(1)] sync_not_provisioned_step [OF assms]
  by simp

theorem sync_not_provisioned_witness:
  "\<not> IsTrue ClusterConditionProvisioned importedPending \<and>
   DeletionTimestamp importedPending = None \<and>
   setStrategy importedPending = Some importedPending \<and>
   doSync exampleExt importedPending exampleState = ((importedPending, Return None), exampleState) \<and>
   sync exampleExt ''c-1'' (Some importedPending) exampleState = (Return None, exampleState)"
proof -
  have p: "\<not> IsTrue ClusterConditionProvisioned importedPending"
    by (simp add: importedPending_def IsTrue_def getStatus_def example_defs)
  have d: "DeletionTimestamp importedPending = None"
    by (simp add: importedPending_def example_defs)
  have c: "setStrategy importedPending = Some importedPending"
    by (simp add: setStrategy_def importedPending_def example_defs)
  show ?thesis
    using p d c sync_not_provisioned [OF p d, where x = exampleExt and s = exampleState
        and copy = importedPending and key = "''c-1''"]
    by simp
qed

section \<open>Properties of the apply loop\<close>

declare applyLoop.simps [simp del]

lemma refusedPushes_Suc:
  "refusedPushes yaml kc (Suc n) = [EvKubectlApply yaml kc, EvSleep 5] @ refusedPushes yaml kc n"
  by (simp add: refusedPushes_def)

lemma refusedPushes_0: "refusedPushes yaml kc 0 = []"
  by (simp add: refusedPushes_def)

lemma applyLoop_done: "applyLoop x yaml kc 5 r s = (r, s)"
  by (cases r) (simp add: applyLoop.simps)

lemma applyLoop_success:
  assumes "i < 5" and "KubectlApply x (trace s) yaml kc = (output1, None)"
  shows "applyLoop x yaml kc i r s = ((output1, None), logEvent (EvKubectlApply yaml kc) s)"
  using assms by (cases r) (simp add: applyLoop.simps [of x yaml kc i] Let_def)

lemma applyLoop_retry:
  assumes "i < 5" and "KubectlApply x (trace s) yaml kc = (output1, Some e)"
  shows "applyLoop x yaml kc i r s =
           applyLoop x yaml kc (Suc i) (output1, Some e)
             (logEvent (EvSleep 5) (logEvent (EvKubectlApply yaml kc) s))"
  using assms by (cases r) (simp add: applyLoop.simps [of x yaml kc i] Let_def)

lemma applyLoop_from:
  assumes "i + d = 5" and "0 < d"
      and "applyLoop x yaml kc i r s = ((output, err), s')"
  shows "\<exists>k. 1 \<le> k \<and> k \<le> d
           \<and> (\<forall>j < k - 1. snd (KubectlApply x (trace s @ refusedPushes yaml kc j) yaml kc) \<noteq> None)
           \<and> KubectlApply x (trace s @ refusedPushes yaml kc (k - 1)) yaml kc = (output, err)
           \<and> (err = None \<longrightarrow>
                trace s' = trace s @ refusedPushes yaml kc (k - 1) @ [EvKubectlApply yaml kc])
           \<and> (err \<noteq> None \<longrightarrow> k = d \<and> trace s' = trace s @ refusedPushes yaml kc k)"
  using assms
proof (induction d arbitrary: i r s)
  case 0
  then show ?case by simp
next
  case (Suc d)
  obtain output1 err1 where o: "KubectlApply x (trace s) yaml kc = (output1, err1)"
    by (cases "KubectlApply x (trace s) yaml kc") auto
  have i: "i < 5" using Suc.prems(1) by simp
  let ?s2 = "logEvent (EvSleep 5) (logEvent (EvKubectlApply yaml kc) s)"
  have tr2: "trace ?s2 = trace s @ refusedPushes yaml kc 1"
    by (simp add: logEvent_def refusedPushes_def)
  show ?case
  proof (cases "err1 = None")
    case True
    then have "((output, err), s') = ((output1, err1), logEvent (EvKubectlApply yaml kc) s)"
      using Suc.prems(3) applyLoop_success [OF i, of x s yaml kc output1 r] o by simp
    then have "output = output1" "err = None" "trace s' = trace s @ [EvKubectlApply yaml kc]"
      using True by (simp_all add: logEvent_def)
    then show ?thesis
      using o True by (intro exI [of _ 1]) (simp add: refusedPushes_0)
  next
    case False
    then obtain e where e: "err1 = Some e" by auto
    have rec: "applyLoop x yaml kc (Suc i) (output1, err1) ?s2 = ((output, err), s')"
      using Suc.prems(3) applyLoop_retry [OF i, of x s yaml kc output1 e r] o e by simp
    show ?thesis
    proof (cases d)
      case 0
      then have "Suc i = 5" using Suc.prems(1) by simp
      then have "((output, err), s') = ((output1, err1), ?s2)"
        using rec applyLoop_done by simp
      then have "output = output1" "err = err1" "trace s' = trace s @ refusedPushes yaml kc 1"
        using tr2 by simp_all
      then show ?thesis
        using o e 0 by (intro exI [of _ 1]) (simp add: refusedPushes_0)
    next
      case (Suc d')
      then have "Suc i + d = 5" "0 < d" using Suc.prems(1) by simp_all
      from Suc.IH [OF this rec]
      obtain k where k: "1 \<le> k" "k \<le> d"
        and fails: "\<forall>j < k - 1. snd (KubectlApply x (trace ?s2 @ refusedPushes yaml kc j) yaml kc) \<noteq> None"
        and last: "KubectlApply x (trace ?s2 @ refusedPushes yaml kc (k - 1)) yaml kc = (output, err)"
        and ok: "err = None \<longrightarrow>
                trace s' = trace ?s2 @ refusedPushes yaml kc (k - 1) @ [EvKubectlApply yaml kc]"
        and bad: "err \<noteq> None \<longrightarrow> k = d \<and> trace s' = trace ?s2 @ refusedPushes yaml kc k"
        by blast
      have shift: "trace ?s2 @ refusedPushes yaml kc n = trace s @ refusedPushes yaml kc (Suc n)" for n
        by (simp add: logEvent_def refusedPushes_def)
      have f': "\<forall>j < Suc k - 1. snd (KubectlApply x (trace s @ refusedPushes yaml kc j) yaml kc) \<noteq> None"
      proof (intro allI impI)
        fix j assume j: "j < Suc k - 1"
        show "snd (KubectlApply x (trace s @ refusedPushes yaml kc j) yaml kc) \<noteq> None"
        proof (cases j)
          case 0
          then show ?thesis using o e by (simp add: refusedPushes_0)
        next
          case (Suc j')
          then have "j' < k - 1" using j by simp
          then show ?thesis using fails shift Suc by simp
        qed
      qed
      have k1: "Suc (k - 1) = k" using k(1) by simp
      have l': "KubectlApply x (trace s @ refusedPushes yaml kc (Suc k - 1)) yaml kc = (output, err)"
        using last shift [of "k - 1"] k1 by simp
      have ok': "err = None \<longrightarrow>
           trace s' = trace s @ refusedPushes yaml kc (Suc k - 1) @ [EvKubectlApply yaml kc]"
        using ok shift [of "k - 1"] k1 by simp
      have bad': "err \<noteq> None \<longrightarrow> Suc k = Suc d \<and> trace s' = trace s @ refusedPushes yaml kc (Suc k)"
        using bad shift [of k] by simp
      show ?thesis
        using k f' l' ok' bad' by (intro exI [of _ "Suc k"]) simp
    qed
  qed
qed

text \<open>
  C6. The apply loop pushes at most 5 times, with a 5-second sleep after each refused push
  and so between any two pushes. There is a number \<open>k\<close> of pushes between 1 and 5 such that
  the first \<open>k - 1\<close> pushes were refused and the loop ends with the answer to push \<open>k\<close>: on
  success the trace stops at push \<open>k\<close>, so no further push is made; an error comes out of
  the loop only when \<open>k = 5\<close>, after five refused pushes.
\<close>

theorem applyLoop_attempts:
  assumes "applyLoop x yaml kc 0 r s = ((output, err), s')"
  shows "\<exists>k. 1 \<le> k \<and> k \<le> 5
           \<and> (\<forall>j < k - 1. snd (KubectlApply x (trace s @ refusedPushes yaml kc j) yaml kc) \<noteq> None)
           \<and> KubectlApply x (trace s @ refusedPushes yaml kc (k - 1)) yaml kc = (output, err)
           \<and> (err = None \<longrightarrow>
                trace s' = trace s @ refusedPushes yaml kc (k - 1) @ [EvKubectlApply yaml kc])
           \<and> (err \<noteq> None \<longrightarrow> k = 5 \<and> trace s' = trace s @ refusedPushes yaml kc 5)"
proof -
  have "(0::nat) + 5 = 5" "(0::nat) < 5" by simp_all
  from applyLoop_from [OF this assms] show ?thesis by blast
qed

lemma exampleExt_refused:
  assumes "pushes tr < 4"
  shows "KubectlApply exampleExt tr yaml kc = (''forbidden'', Some (ErrorNew ''exit status 1''))"
  using assms by (simp add: exampleExt_def)

lemma exampleExt_accepted:
  assumes "pushes tr = 4"
  shows "KubectlApply exampleExt tr yaml kc = (''created'', None)"
  using assms by (simp add: exampleExt_def)

lemma pushes_append: "pushes (es @ fs) = pushes es + pushes fs"
  by (induction es rule: pushes.induct) simp_all

lemma applyLoop_example:
  assumes "pushes tr = 0"
  shows "applyLoop exampleExt ''manifest'' ''kubeconfig-1'' 0 ([], None) (exampleState\<lparr>trace := tr\<rparr>) =
     ((''created'', None),
      exampleState\<lparr>trace := tr @ refusedPushes ''manifest'' ''kubeconfig-1'' 4
                       @ [EvKubectlApply ''manifest'' ''kubeconfig-1'']\<rparr>)"
proof -
  let ?a = "EvKubectlApply ''manifest'' ''kubeconfig-1''"
  let ?z = "EvSleep 5"
  have step: "applyLoop exampleExt ''manifest'' ''kubeconfig-1'' i r (exampleState\<lparr>trace := tr'\<rparr>) =
                applyLoop exampleExt ''manifest'' ''kubeconfig-1'' (Suc i)
                  (''forbidden'', Some (ErrorNew ''exit status 1''))
                  (exampleState\<lparr>trace := tr' @ [?a, ?z]\<rparr>)"
    if "i < 5" "pushes tr' < 4" for i r tr'
    using applyLoop_retry [OF that(1), of exampleExt "exampleState\<lparr>trace := tr'\<rparr>"
        "''manifest''" "''kubeconfig-1''" "''forbidden''" "ErrorNew ''exit status 1''" r]
      exampleExt_refused [OF that(2)]
    by (simp add: logEvent_def)
  have last: "applyLoop exampleExt ''manifest'' ''kubeconfig-1'' i r (exampleState\<lparr>trace := tr'\<rparr>) =
                ((''created'', None), exampleState\<lparr>trace := tr' @ [?a]\<rparr>)"
    if "i < 5" "pushes tr' = 4" for i r tr'
    using applyLoop_success [OF that(1), of exampleExt "exampleState\<lparr>trace := tr'\<rparr>"
        "''manifest''" "''kubeconfig-1''" "''created''" r]
      exampleExt_accepted [OF that(2)]
    by (simp add: logEvent_def)
  have "applyLoop exampleExt ''manifest'' ''kubeconfig-1'' 0 ([], None) (exampleState\<lparr>trace := tr\<rparr>) =
          ((''created'', None), exampleState\<lparr>trace := tr @ [?a, ?z, ?a, ?z, ?a, ?z, ?a, ?z] @ [?a]\<rparr>)"
    using assms by (simp add: step last pushes_append)
  then show ?thesis
    by (simp add: refusedPushes_def numeral_eq_Suc)
qed

lemma applyLoop_exampleState:
  "applyLoop exampleExt ''manifest'' ''kubeconfig-1'' 0 ([], None) exampleState =
     ((''created'', None),
      exampleState\<lparr>trace := refusedPushes ''manifest'' ''kubeconfig-1'' 4
                       @ [EvKubectlApply ''manifest'' ''kubeconfig-1'']\<rparr>)"
proof -
  have "exampleState\<lparr>trace := []\<rparr> = exampleState"
    by (simp add: exampleState_def)
  then show ?thesis
    using applyLoop_example [of "[]"] by simp
qed

theorem applyLoop_attempts_witness:
  "applyLoop exampleExt ''manifest'' ''kubeconfig-1'' 0 ([], None) exampleState =
     ((''created'', None),
      exampleState\<lparr>trace := refusedPushes ''manifest'' ''kubeconfig-1'' 4
                       @ [EvKubectlApply ''manifest'' ''kubeconfig-1'']\<rparr>) \<and>
   (\<exists>k. 1 \<le> k \<and> k \<le> 5 \<and>
      KubectlApply exampleExt (trace exampleState @ refusedPushes ''manifest'' ''kubeconfig-1'' (k - 1))
        ''manifest'' ''kubeconfig-1'' = (''created'', None) \<and>
      trace (exampleState\<lparr>trace := refusedPushes ''manifest'' ''kubeconfig-1'' 4
                       @ [EvKubectlApply ''manifest'' ''kubeconfig-1'']\<rparr>)
        = trace exampleState @ refusedPushes ''manifest'' ''kubeconfig-1'' (k - 1)
            @ [EvKubectlApply ''manifest'' ''kubeconfig-1''])"
  using applyLoop_exampleState applyLoop_attempts [OF applyLoop_exampleState]
  by blast

section \<open>Properties of the companion cleanup\<close>

lemma Message_fields:
  "Driver (Status (Message t obj msg)) = Driver (Status obj)"
  "authDeleteDue (Message t obj msg) = authDeleteDue obj"
  by (simp_all add: Message_def setCondition_def authDeleteDue_def)

text \<open>
  C7. When a companion-resource deletion fails and its output says that the resource is
  not found, the error is dropped and processing goes on: after the authentication
  workload with the node-level workload, after the node-level workload with a successful
  return. Any other failed deletion is returned as the composite of the underlying error
  and the command output, under the message "kubectl delete failed".
\<close>

theorem companion_delete_errors:
  "(authDeleteDue obj \<and> KubectlDelete x (trace s) (AuthDaemonSet x) kc = (out, Some e) \<longrightarrow>
      (if Contains out authNotFound
       then removeCompanions x obj kc output s
              = removeNodeAgent x (Message ClusterConditionAgentDeployed obj output) kc out
                  (logEvent (EvKubectlDelete (AuthDaemonSet x) kc) s)
       else removeCompanions x obj kc output s
              = ((Message ClusterConditionAgentDeployed obj output,
                  Some (WithMessage (MultiErrors [e, ErrorNew out]) ''kubectl delete failed'')),
                 logEvent (EvKubectlDelete (AuthDaemonSet x) kc) s)))
   \<and> (Driver (Status obj) \<noteq> ClusterDriverRKE
        \<and> KubectlDelete x (trace s) (NodeAgentDaemonSet x) kc = (out, Some e) \<longrightarrow>
      (if Contains out nodeAgentNotFound
       then removeNodeAgent x obj kc output s
              = ((Message ClusterConditionAgentDeployed obj out, None),
                 logEvent (EvKubectlDelete (NodeAgentDaemonSet x) kc) s)
       else removeNodeAgent x obj kc output s
              = ((obj, Some (WithMessage (MultiErrors [e, ErrorNew out]) ''kubectl delete failed'')),
                 logEvent (EvKubectlDelete (NodeAgentDaemonSet x) kc) s)))"
proof (rule conjI)
  show "authDeleteDue obj \<and> KubectlDelete x (trace s) (AuthDaemonSet x) kc = (out, Some e) \<longrightarrow>
      (if Contains out authNotFound
       then removeCompanions x obj kc output s
              = removeNodeAgent x (Message ClusterConditionAgentDeployed obj output) kc out
                  (logEvent (EvKubectlDelete (AuthDaemonSet x) kc) s)
       else removeCompanions x obj kc output s
              = ((Message ClusterConditionAgentDeployed obj output,
                  Some (WithMessage (MultiErrors [e, ErrorNew out]) ''kubectl delete failed'')),
                 logEvent (EvKubectlDelete (AuthDaemonSet x) kc) s))"
    by (simp add: removeCompanions_def kubectlDeleteFailed_def Message_fields Let_def)
  show "Driver (Status obj) \<noteq> ClusterDriverRKE
        \<and> KubectlDelete x (trace s) (NodeAgentDaemonSet x) kc = (out, Some e) \<longrightarrow>
      (if Contains out nodeAgentNotFound
       then removeNodeAgent x obj kc output s
              = ((Message ClusterConditionAgentDeployed obj out, None),
                 logEvent (EvKubectlDelete (NodeAgentDaemonSet x) kc) s)
       else removeNodeAgent x obj kc output s
              = ((obj, Some (WithMessage (MultiErrors [e, ErrorNew out]) ''kubectl delete failed'')),
                 logEvent (EvKubectlDelete (NodeAgentDaemonSet x) kc) s))"
    by (simp add: removeNodeAgent_def kubectlDeleteFailed_def Let_def)
qed

lemma exampleExt_delete:
  "KubectlDelete exampleExt tr (AuthDaemonSet exampleExt) kc
     = (''connection refused'', Some (ErrorNew ''exit status 1''))"
  \<open>KubectlDelete exampleExt tr (NodeAgentDaemonSet exampleExt) kc
     = (''Error: daemonsets.apps "cattle-node-agent" not found'', Some (ErrorNew ''exit status 1''))\<close>
  by (simp_all add: exampleExt_def)

lemma example_Contains:
  "\<not> Contains ''connection refused'' authNotFound"
  \<open>Contains ''Error: daemonsets.apps "cattle-node-agent" not found'' nodeAgentNotFound\<close>
  by (simp_all add: Contains_def HasPrefix_def authNotFound_def nodeAgentNotFound_def)

lemma authCluster_due: "authDeleteDue authCluster"
  by (simp add: authDeleteDue_def authCluster_def example_defs)

lemma exampleCluster_driver:
  "Driver (Status exampleCluster) \<noteq> ClusterDriverRKE"
  "Driver (Status authCluster) \<noteq> ClusterDriverRKE"
  by (simp_all add: authCluster_def example_defs)

theorem companion_delete_errors_witness:
  \<open>authDeleteDue authCluster \<and>
   KubectlDelete exampleExt (trace exampleState) (AuthDaemonSet exampleExt) ''kubeconfig-1''
     = (''connection refused'', Some (ErrorNew ''exit status 1'')) \<and>
   removeCompanions exampleExt authCluster ''kubeconfig-1'' ''created'' exampleState
     = ((Message ClusterConditionAgentDeployed authCluster ''created'',
         Some (WithMessage (MultiErrors [ErrorNew ''exit status 1'', ErrorNew ''connection refused''])
                 ''kubectl delete failed'')),
        logEvent (EvKubectlDelete (AuthDaemonSet exampleExt) ''kubeconfig-1'') exampleState) \<and>
   Driver (Status exampleCluster) \<noteq> ClusterDriverRKE \<and>
   KubectlDelete exampleExt (trace exampleState) (NodeAgentDaemonSet exampleExt) ''kubeconfig-1''
     = (''Error: daemonsets.apps "cattle-node-agent" not found'', Some (ErrorNew ''exit status 1'')) \<and>
   removeNodeAgent exampleExt exampleCluster ''kubeconfig-1'' ''created'' exampleState
     = ((Message ClusterConditionAgentDeployed exampleCluster
           ''Error: daemonsets.apps "cattle-node-agent" not found'', None),
        logEvent (EvKubectlDelete (NodeAgentDaemonSet exampleExt) ''kubeconfig-1'') exampleState)\<close>
  using authCluster_due exampleCluster_driver(1) example_Contains
    exampleExt_delete [of "trace exampleState" "''kubeconfig-1''"]
    companion_delete_errors [of authCluster exampleExt exampleState "''kubeconfig-1''"
      "''connection refused''" "ErrorNew ''exit status 1''" "''created''"]
    companion_delete_errors [of exampleCluster exampleExt exampleState "''kubeconfig-1''"
      \<open>''Error: daemonsets.apps "cattle-node-agent" not found''\<close> "ErrorNew ''exit status 1''"
      "''created''"]
  by simp

lemma removeNodeAgent_trace:
  "trace (snd (removeNodeAgent x obj kc output s)) =
     trace s @ (if Driver (Status obj) \<noteq> ClusterDriverRKE
                then [EvKubectlDelete (NodeAgentDaemonSet x) kc] else [])"
  by (simp add: removeNodeAgent_def logEvent_def Let_def split: prod.splits option.splits)

lemma removeCompanions_trace:
  "trace (snd (removeCompanions x obj kc output s)) =
     trace s
       @ (if authDeleteDue obj then [EvKubectlDelete (AuthDaemonSet x) kc] else [])
       @ (if Driver (Status obj) \<noteq> ClusterDriverRKE \<and> \<not> authDeleteEscalates x obj kc s
          then [EvKubectlDelete (NodeAgentDaemonSet x) kc] else [])"
proof (cases "authDeleteDue obj")
  case False
  then show ?thesis
    by (simp add: removeCompanions_def removeNodeAgent_trace authDeleteEscalates_def
        Message_fields Let_def)
next
  case True
  obtain out err where d: "KubectlDelete x (trace s) (AuthDaemonSet x) kc = (out, err)"
    by (cases "KubectlDelete x (trace s) (AuthDaemonSet x) kc") auto
  show ?thesis
    using True d
    by (cases err)
       (simp_all add: removeCompanions_def removeNodeAgent_trace authDeleteEscalates_def
          Message_fields logEvent_def Let_def)
qed

text \<open>
  C4, as stated: after every successful apply both removals are attempted, that of the
  authentication workload unconditionally. They are not: for the imported cluster below,
  which never had the authentication endpoint, the apply succeeds on the fifth push and
  the only deletion that follows is that of the node-level workload.
\<close>

lemma getYAML_example:
  "getYAML exampleExt obj ''rancher/agent:v2'' [] (Some []) [] exampleState =
     ((''manifest'', None),
      exampleState\<lparr>trace := [EvGetOrCreateSystemClusterToken (Name obj), EvServerURLGet,
                               EvSystemTemplate ''rancher/agent:v2'' [] (Name obj)]\<rparr>)"
  by (simp add: getYAML_def exampleExt_def logEvent_def exampleState_def)

lemma applyLoop_after_getYAML:
  "applyLoop exampleExt ''manifest'' ''kubeconfig-1'' 0 ([], None)
     (exampleState\<lparr>trace := [EvGetOrCreateSystemClusterToken n, EvServerURLGet,
                               EvSystemTemplate ''rancher/agent:v2'' [] n]\<rparr>) =
     ((''created'', None),
      exampleState\<lparr>trace := [EvGetOrCreateSystemClusterToken n, EvServerURLGet,
                               EvSystemTemplate ''rancher/agent:v2'' [] n]
                       @ refusedPushes ''manifest'' ''kubeconfig-1'' 4
                       @ [EvKubectlApply ''manifest'' ''kubeconfig-1'']\<rparr>)"
  by (rule applyLoop_example) simp

theorem companions_unconditional_counterexample:
  "snd (fst (applyLoop exampleExt ''manifest'' ''kubeconfig-1'' 0 ([], None)
          (snd (getYAML exampleExt exampleCluster ''rancher/agent:v2'' [] (Some []) [] exampleState))))
     = None \<and>
   trace (snd (applyAgent exampleExt exampleCluster ''rancher/agent:v2'' [] (Some []) []
                 ''kubeconfig-1'' exampleState))
     = [EvGetOrCreateSystemClusterToken ''c-1'', EvServerURLGet,
        EvSystemTemplate ''rancher/agent:v2'' [] ''c-1'']
       @ refusedPushes ''manifest'' ''kubeconfig-1'' 4
       @ [EvKubectlApply ''manifest'' ''kubeconfig-1'',
          EvKubectlDelete (NodeAgentDaemonSet exampleExt) ''kubeconfig-1''] \<and>
   EvKubectlDelete (AuthDaemonSet exampleExt) ''kubeconfig-1''
     \<notin> set (trace (snd (applyAgent exampleExt exampleCluster ''rancher/agent:v2'' [] (Some []) []
                 ''kubeconfig-1'' exampleState)))"
proof -
  have n: "Name exampleCluster = ''c-1''" by (simp add: exampleCluster_def)
  have due: "\<not> authDeleteDue exampleCluster"
    by (simp add: authDeleteDue_def example_defs)
  have esc: "\<not> authDeleteEscalates exampleExt exampleCluster kc s" for kc s
    using due by (simp add: authDeleteEscalates_def)
  have t: "trace (snd (applyAgent exampleExt exampleCluster ''rancher/agent:v2'' [] (Some []) []
                 ''kubeconfig-1'' exampleState))
     = [EvGetOrCreateSystemClusterToken ''c-1'', EvServerURLGet,
        EvSystemTemplate ''rancher/agent:v2'' [] ''c-1'']
       @ refusedPushes ''manifest'' ''kubeconfig-1'' 4
       @ [EvKubectlApply ''manifest'' ''kubeconfig-1'',
          EvKubectlDelete (NodeAgentDaemonSet exampleExt) ''kubeconfig-1'']"
    using due esc exampleCluster_driver(1)
    by (simp add: applyAgent_def getYAML_example applyLoop_after_getYAML n
        removeCompanions_trace)
  have a: "AuthDaemonSet exampleExt \<noteq> NodeAgentDaemonSet exampleExt"
    by (simp add: exampleExt_def)
  show ?thesis
    unfolding t using a
    by (simp add: getYAML_example applyLoop_after_getYAML refusedPushes_def numeral_eq_Suc)
qed

text \<open>
  C4, amended. After a successful apply, the removal of the authentication workload is
  attempted exactly when the authentication endpoint is off in the desired spec, on in the
  last-applied spec, and an authentication image is recorded; the removal of the node-level
  workload is attempted exactly when the cluster is not of the engine driver and the
  removal of the authentication workload was not escalated as an error. Nothing else is
  called after the apply.
\<close>

theorem applyAgent_cleanup:
  assumes "getYAML x obj desiredAgent desiredAuth desiredFeatures desiredTaints s = ((yaml, None), s1)"
      and "applyLoop x yaml kc 0 ([], None) s1 = ((output, None), s2)"
  shows "trace (snd (applyAgent x obj desiredAgent desiredAuth desiredFeatures desiredTaints kc s)) =
           trace s2
             @ (if authDeleteDue obj then [EvKubectlDelete (AuthDaemonSet x) kc] else [])
             @ (if Driver (Status obj) \<noteq> ClusterDriverRKE \<and> \<not> authDeleteEscalates x obj kc s2
                then [EvKubectlDelete (NodeAgentDaemonSet x) kc] else [])"
  using assms by (simp add: applyAgent_def removeCompanions_trace)

theorem applyAgent_cleanup_witness:
  "getYAML exampleExt authCluster ''rancher/agent:v2'' [] (Some []) [] exampleState =
     ((''manifest'', None),
      exampleState\<lparr>trace := [EvGetOrCreateSystemClusterToken ''c-1'', EvServerURLGet,
                               EvSystemTemplate ''rancher/agent:v2'' [] ''c-1'']\<rparr>) \<and>
   applyLoop exampleExt ''manifest'' ''kubeconfig-1'' 0 ([], None)
     (exampleState\<lparr>trace := [EvGetOrCreateSystemClusterToken ''c-1'', EvServerURLGet,
                               EvSystemTemplate ''rancher/agent:v2'' [] ''c-1'']\<rparr>) =
     ((''created'', None),
      exampleState\<lparr>trace := [EvGetOrCreateSystemClusterToken ''c-1'', EvServerURLGet,
                               EvSystemTemplate ''rancher/agent:v2'' [] ''c-1'']
                       @ refusedPushes ''manifest'' ''kubeconfig-1'' 4
                       @ [EvKubectlApply ''manifest'' ''kubeconfig-1'']\<rparr>) \<and>
   authDeleteDue authCluster \<and>
   Driver (Status authCluster) \<noteq> ClusterDriverRKE \<and>
   trace (snd (applyAgent exampleExt authCluster ''rancher/agent:v2'' [] (Some []) []
                 ''kubeconfig-1'' exampleState))
     = [EvGetOrCreateSystemClusterToken ''c-1'', EvServerURLGet,
        EvSystemTemplate ''rancher/agent:v2'' [] ''c-1'']
       @ refusedPushes ''manifest'' ''kubeconfig-1'' 4
       @ [EvKubectlApply ''manifest'' ''kubeconfig-1'',
          EvKubectlDelete (AuthDaemonSet exampleExt) ''kubeconfig-1'']"
proof -
  have n: "Name authCluster = ''c-1''" by (simp add: authCluster_def exampleCluster_def)
  have y: "getYAML exampleExt authCluster ''rancher/agent:v2'' [] (Some []) [] exampleState =
     ((''manifest'', None),
      exampleState\<lparr>trace := [EvGetOrCreateSystemClusterToken ''c-1'', EvServerURLGet,
                               EvSystemTemplate ''rancher/agent:v2'' [] ''c-1'']\<rparr>)"
    using getYAML_example [of authCluster] by (simp add: n)
  note l = applyLoop_after_getYAML [of "''c-1''"]
  have esc: "authDeleteEscalates exampleExt authCluster ''kubeconfig-1'' s" for s
    using authCluster_due example_Contains(1)
    by (simp add: authDeleteEscalates_def exampleExt_delete)
  show ?thesis
    using y l authCluster_due exampleCluster_driver(2) esc applyAgent_cleanup [OF y l]
    by simp
qed

end
